theory Spec2Isabelle
  imports Complex_Main
begin

section \<open>InteractiveTree: the spatial samplers, the dataset and the frame loop\<close>

text \<open>
  A shallow embedding of \<^verbatim>\<open>InteractiveTree.tsx\<close>. JavaScript numbers are modelled by the
  real numbers (rounding, overflow and the single-precision storage of the instance
  buffers are not modelled); the special values that a division by zero produces are
  treated in a section of their own. \<^verbatim>\<open>Math.random()\<close> is a stream of draws that every
  call consumes from the front, so that the order of the calls in the source is the
  order of the draws in the model.
\<close>

subsection \<open>Random draws\<close>

type_synonym rng = "nat \<Rightarrow> real"

definition Math_random :: "rng \<Rightarrow> real \<times> rng" where
  "Math_random g = (g 0, \<lambda>n. g (Suc n))"

text \<open>The contract of \<^verbatim>\<open>Math.random()\<close>: every draw lies in \<open>[0, 1)\<close>.\<close>

definition uniform_draws :: "rng \<Rightarrow> bool" where
  "uniform_draws g = (\<forall>n. 0 \<le> g n \<and> g n < 1)"

subsection \<open>The parts of the rendering library that the component calls\<close>

text \<open>
  \<^verbatim>\<open>THREE.Vector3\<close>, \<^verbatim>\<open>THREE.Euler\<close> (always in the default order XYZ here),
  \<^verbatim>\<open>THREE.Quaternion\<close> and \<^verbatim>\<open>THREE.Matrix4\<close> (sixteen elements, column-major).
\<close>

datatype vector3 = Vector3 (vx: real) (vy: real) (vz: real)

datatype euler = Euler (ex: real) (ey: real) (ez: real)

datatype quaternion = Quaternion (qx: real) (qy: real) (qz: real) (qw: real)

datatype matrix4 = Matrix4
  (te0: real) (te1: real) (te2: real) (te3: real)
  (te4: real) (te5: real) (te6: real) (te7: real)
  (te8: real) (te9: real) (te10: real) (te11: real)
  (te12: real) (te13: real) (te14: real) (te15: real)

text \<open>The position, quaternion and scale of an \<^verbatim>\<open>Object3D\<close>.\<close>

record object3d =
  obj_position :: vector3
  obj_quaternion :: quaternion
  obj_scale :: vector3

definition Object3D_new :: object3d where
  "Object3D_new = \<lparr>obj_position = Vector3 0 0 0,
                   obj_quaternion = Quaternion 0 0 0 1,
                   obj_scale = Vector3 1 1 1\<rparr>"

definition Vector3_addScalar :: "vector3 \<Rightarrow> real \<Rightarrow> vector3" where
  "Vector3_addScalar v s = Vector3 (vx v + s) (vy v + s) (vz v + s)"

definition Vector3_add :: "vector3 \<Rightarrow> vector3 \<Rightarrow> vector3" where
  "Vector3_add a b = Vector3 (vx a + vx b) (vy a + vy b) (vz a + vz b)"

definition Vector3_setScalar :: "real \<Rightarrow> vector3" where
  "Vector3_setScalar s = Vector3 s s s"

definition Vector3_lerp :: "vector3 \<Rightarrow> vector3 \<Rightarrow> real \<Rightarrow> vector3" where
  "Vector3_lerp a v alpha =
     Vector3 (vx a + (vx v - vx a) * alpha)
             (vy a + (vy v - vy a) * alpha)
             (vz a + (vz v - vz a) * alpha)"

definition Vector3_length :: "vector3 \<Rightarrow> real" where
  "Vector3_length v = sqrt (vx v * vx v + vy v * vy v + vz v * vz v)"

definition Vector3_distanceTo :: "vector3 \<Rightarrow> vector3 \<Rightarrow> real" where
  "Vector3_distanceTo a b =
     sqrt ((vx a - vx b) * (vx a - vx b) + (vy a - vy b) * (vy a - vy b)
           + (vz a - vz b) * (vz a - vz b))"

definition MathUtils_lerp :: "real \<Rightarrow> real \<Rightarrow> real \<Rightarrow> real" where
  "MathUtils_lerp a b t = (1 - t) * a + t * b"

definition Quaternion_setFromEuler :: "euler \<Rightarrow> quaternion" where
  "Quaternion_setFromEuler e =
     (let c1 = cos (ex e / 2); c2 = cos (ey e / 2); c3 = cos (ez e / 2);
          s1 = sin (ex e / 2); s2 = sin (ey e / 2); s3 = sin (ez e / 2)
      in Quaternion (s1 * c2 * c3 + c1 * s2 * s3)
                    (c1 * s2 * c3 - s1 * c2 * s3)
                    (c1 * c2 * s3 + s1 * s2 * c3)
                    (c1 * c2 * c3 - s1 * s2 * s3))"

definition Quaternion_setFromAxisAngle :: "vector3 \<Rightarrow> real \<Rightarrow> quaternion" where
  "Quaternion_setFromAxisAngle axis angle =
     (let halfAngle = angle / 2; s = sin halfAngle
      in Quaternion (vx axis * s) (vy axis * s) (vz axis * s) (cos halfAngle))"

definition Quaternion_multiply :: "quaternion \<Rightarrow> quaternion \<Rightarrow> quaternion" where
  "Quaternion_multiply a b =
     Quaternion (qx a * qw b + qw a * qx b + qy a * qz b - qz a * qy b)
                (qy a * qw b + qw a * qy b + qz a * qx b - qx a * qz b)
                (qz a * qw b + qw a * qz b + qx a * qy b - qy a * qx b)
                (qw a * qw b - qx a * qx b - qy a * qy b - qz a * qz b)"

text \<open>
  \<^verbatim>\<open>Quaternion.setFromRotationMatrix\<close>, on the upper 3x3 block given by its entries
  \<open>m11 \<dots> m33\<close>.
\<close>

definition Quaternion_setFromRotationMatrix ::
  "real \<Rightarrow> real \<Rightarrow> real \<Rightarrow> real \<Rightarrow> real \<Rightarrow> real \<Rightarrow> real \<Rightarrow> real \<Rightarrow> real \<Rightarrow> quaternion" where
  "Quaternion_setFromRotationMatrix m11 m12 m13 m21 m22 m23 m31 m32 m33 =
     (let trace = m11 + m22 + m33 in
      if trace > 0 then
        (let s = 0.5 / sqrt (trace + 1)
         in Quaternion ((m32 - m23) * s) ((m13 - m31) * s) ((m21 - m12) * s) (0.25 / s))
      else if m11 > m22 \<and> m11 > m33 then
        (let s = 2 * sqrt (1 + m11 - m22 - m33)
         in Quaternion (0.25 * s) ((m12 + m21) / s) ((m13 + m31) / s) ((m32 - m23) / s))
      else if m22 > m33 then
        (let s = 2 * sqrt (1 + m22 - m11 - m33)
         in Quaternion ((m12 + m21) / s) (0.25 * s) ((m23 + m32) / s) ((m13 - m31) / s))
      else
        (let s = 2 * sqrt (1 + m33 - m11 - m22)
         in Quaternion ((m13 + m31) / s) ((m23 + m32) / s) (0.25 * s) ((m21 - m12) / s)))"

definition Matrix4_compose :: "vector3 \<Rightarrow> quaternion \<Rightarrow> vector3 \<Rightarrow> matrix4" where
  "Matrix4_compose p q s =
     (let x = qx q; y = qy q; z = qz q; w = qw q;
          x2 = x + x; y2 = y + y; z2 = z + z;
          xx = x * x2; xy = x * y2; xz = x * z2;
          yy = y * y2; yz = y * z2; zz = z * z2;
          wx = w * x2; wy = w * y2; wz = w * z2;
          sx = vx s; sy = vy s; sz = vz s
      in Matrix4 ((1 - (yy + zz)) * sx) ((xy + wz) * sx) ((xz - wy) * sx) 0
                 ((xy - wz) * sy) ((1 - (xx + zz)) * sy) ((yz + wx) * sy) 0
                 ((xz + wy) * sz) ((yz - wx) * sz) ((1 - (xx + yy)) * sz) 0
                 (vx p) (vy p) (vz p) 1)"

definition Matrix4_determinant :: "matrix4 \<Rightarrow> real" where
  "Matrix4_determinant m =
     (let n11 = te0 m; n12 = te4 m; n13 = te8 m; n14 = te12 m;
          n21 = te1 m; n22 = te5 m; n23 = te9 m; n24 = te13 m;
          n31 = te2 m; n32 = te6 m; n33 = te10 m; n34 = te14 m;
          n41 = te3 m; n42 = te7 m; n43 = te11 m; n44 = te15 m
      in n41 * (n14 * n23 * n32 - n13 * n24 * n32 - n14 * n22 * n33
                + n12 * n24 * n33 + n13 * n22 * n34 - n12 * n23 * n34)
       + n42 * (n11 * n23 * n34 - n11 * n24 * n33 + n14 * n21 * n33
                - n13 * n21 * n34 + n13 * n24 * n31 - n14 * n23 * n31)
       + n43 * (n11 * n24 * n32 - n11 * n22 * n34 - n14 * n21 * n32
                + n12 * n21 * n34 + n14 * n22 * n31 - n12 * n24 * n31)
       + n44 * (- n13 * n22 * n31 - n11 * n23 * n32 + n11 * n22 * n33
                + n13 * n21 * n32 - n12 * n21 * n33 + n12 * n23 * n31))"

text \<open>
  \<^verbatim>\<open>Matrix4.decompose\<close>. The scale is the length of each of the first three columns, the
  first one negated when the determinant is negative; the position is the fourth column;
  the orientation is read from the columns divided by the scale. Where a column has
  length zero JavaScript divides by zero and the orientation it computes is not a
  number; the quotient of the model is meaningful for columns of non-zero length only,
  and \<open>decomposable\<close> says so.
\<close>

definition Matrix4_decompose :: "matrix4 \<Rightarrow> object3d" where
  "Matrix4_decompose m =
     (let sx0 = Vector3_length (Vector3 (te0 m) (te1 m) (te2 m));
          sy = Vector3_length (Vector3 (te4 m) (te5 m) (te6 m));
          sz = Vector3_length (Vector3 (te8 m) (te9 m) (te10 m));
          det = Matrix4_determinant m;
          sx = (if det < 0 then - sx0 else sx0);
          invSX = 1 / sx; invSY = 1 / sy; invSZ = 1 / sz
      in \<lparr>obj_position = Vector3 (te12 m) (te13 m) (te14 m),
          obj_quaternion = Quaternion_setFromRotationMatrix
            (te0 m * invSX) (te4 m * invSY) (te8 m * invSZ)
            (te1 m * invSX) (te5 m * invSY) (te9 m * invSZ)
            (te2 m * invSX) (te6 m * invSY) (te10 m * invSZ),
          obj_scale = Vector3 sx sy sz\<rparr>)"

definition decomposable :: "matrix4 \<Rightarrow> bool" where
  "decomposable m =
     (Vector3_length (Vector3 (te0 m) (te1 m) (te2 m)) \<noteq> 0
      \<and> Vector3_length (Vector3 (te4 m) (te5 m) (te6 m)) \<noteq> 0
      \<and> Vector3_length (Vector3 (te8 m) (te9 m) (te10 m)) \<noteq> 0)"

text \<open>A quaternion of norm one, and a matrix whose last row is \<open>(0, 0, 0, 1)\<close>.\<close>

definition unitq :: "quaternion \<Rightarrow> bool" where
  "unitq q = (qx q * qx q + qy q * qy q + qz q * qz q + qw q * qw q = 1)"

definition affine :: "matrix4 \<Rightarrow> bool" where
  "affine m = (te3 m = 0 \<and> te7 m = 0 \<and> te11 m = 0 \<and> te15 m = 1)"

definition Matrix4_identity :: matrix4 where
  "Matrix4_identity = Matrix4 1 0 0 0  0 1 0 0  0 0 1 0  0 0 0 1"

text \<open>
  \<^verbatim>\<open>Quaternion.slerp\<close> as the library has long implemented it, with \<^verbatim>\<open>Math.atan2\<close>,
  \<^verbatim>\<open>Number.EPSILON\<close> and \<^verbatim>\<open>Quaternion.normalize\<close>. The frame loop below takes the
  interpolation as a parameter, and this one is the instance in the concrete runs.
\<close>

definition Math_atan2 :: "real \<Rightarrow> real \<Rightarrow> real" where
  "Math_atan2 y x =
     (if 0 < x then arctan (y / x)
      else if x < 0 \<and> 0 \<le> y then arctan (y / x) + pi
      else if x < 0 then arctan (y / x) - pi
      else if 0 < y then pi / 2
      else if y < 0 then - pi / 2
      else 0)"

definition Number_EPSILON :: real where
  "Number_EPSILON = 1 / 2 ^ 52"

definition Quaternion_normalize :: "quaternion \<Rightarrow> quaternion" where
  "Quaternion_normalize q =
     (let l = sqrt (qx q * qx q + qy q * qy q + qz q * qz q + qw q * qw q)
      in if l = 0 then Quaternion 0 0 0 1
         else Quaternion (qx q * (1 / l)) (qy q * (1 / l)) (qz q * (1 / l)) (qw q * (1 / l)))"

definition Quaternion_slerp :: "quaternion \<Rightarrow> quaternion \<Rightarrow> real \<Rightarrow> quaternion" where
  "Quaternion_slerp qa qb t =
     (if t = 0 then qa
      else if t = 1 then qb
      else
        (let x = qx qa; y = qy qa; z = qz qa; w = qw qa;
             dot = w * qw qb + x * qx qb + y * qy qb + z * qz qb;
             q1 = (if dot < 0 then Quaternion (- qx qb) (- qy qb) (- qz qb) (- qw qb) else qb);
             cosHalfTheta = (if dot < 0 then - dot else dot)
         in if cosHalfTheta \<ge> 1 then qa
            else
              (let sqrSinHalfTheta = 1 - cosHalfTheta * cosHalfTheta
               in if sqrSinHalfTheta \<le> Number_EPSILON
                  then (let s = 1 - t
                        in Quaternion_normalize
                             (Quaternion (s * x + t * qx q1) (s * y + t * qy q1)
                                (s * z + t * qz q1) (s * w + t * qw q1)))
                  else
                    (let sinHalfTheta = sqrt sqrSinHalfTheta;
                         halfTheta = Math_atan2 sinHalfTheta cosHalfTheta;
                         ratioA = sin ((1 - t) * halfTheta) / sinHalfTheta;
                         ratioB = sin (t * halfTheta) / sinHalfTheta
                     in Quaternion (x * ratioA + qx q1 * ratioB) (y * ratioA + qy q1 * ratioB)
                          (z * ratioA + qz q1 * ratioB) (w * ratioA + qw q1 * ratioB)))))"

subsection \<open>Configuration\<close>

definition PARTICLE_COUNT :: nat where "PARTICLE_COUNT = 3500"
definition ORNAMENT_COUNT :: nat where "ORNAMENT_COUNT = 150"
definition TREE_HEIGHT :: real where "TREE_HEIGHT = 8"
definition TREE_RADIUS_BASE :: real where "TREE_RADIUS_BASE = 3.5"
definition SCATTER_RADIUS :: real where "SCATTER_RADIUS = 15"

subsection \<open>The spatial samplers\<close>

definition randomInSphere :: "real \<Rightarrow> rng \<Rightarrow> vector3 \<times> rng" where
  "randomInSphere radius g0 =
     (let (u, g1) = Math_random g0;
          (v, g2) = Math_random g1;
          theta = 2 * pi * u;
          phi = arccos (2 * v - 1);
          (w, g3) = Math_random g2;
          r = root 3 w * radius
      in (Vector3 (r * sin phi * cos theta) (r * sin phi * sin theta) (r * cos phi), g3))"

definition randomInCone :: "real \<Rightarrow> real \<Rightarrow> rng \<Rightarrow> vector3 \<times> rng" where
  "randomInCone height radiusBase g0 =
     (let (u, g1) = Math_random g0;
          y = u * height;
          rAtHeight = (1 - y / height) * radiusBase;
          (v, g2) = Math_random g1;
          theta = v * pi * 2;
          (w, g3) = Math_random g2;
          r = sqrt w * rAtHeight
      in (Vector3 (r * cos theta) y (r * sin theta), g3))"

definition randomOnConeSurface :: "real \<Rightarrow> real \<Rightarrow> rng \<Rightarrow> vector3 \<times> rng" where
  "randomOnConeSurface height radiusBase g0 =
     (let (u, g1) = Math_random g0;
          y = u * height;
          rAtHeight = (1 - y / height) * radiusBase;
          (v, g2) = Math_random g1;
          theta = v * pi * 2;
          r = rAtHeight + 0.1
      in (Vector3 (r * cos theta) y (r * sin theta), g2))"

subsection \<open>Division by zero: the special values of JavaScript numbers\<close>

text \<open>
  The cone samplers divide by \<open>height\<close>. To say what they return when the divisor is
  zero, the same two functions are written once more over numbers that are either a
  real, an infinity or not-a-number, with the arithmetic of IEEE 754 on the special
  values (rounding and the sign of zero are not modelled: a non-zero number divided by
  zero takes the sign of the dividend).
\<close>

datatype number = Finite real | PosInfinity | NegInfinity | NaN

fun isNaN :: "number \<Rightarrow> bool" where
  "isNaN NaN = True"
| "isNaN _ = False"

fun num_neg :: "number \<Rightarrow> number" where
  "num_neg (Finite a) = Finite (- a)"
| "num_neg PosInfinity = NegInfinity"
| "num_neg NegInfinity = PosInfinity"
| "num_neg NaN = NaN"

fun num_add :: "number \<Rightarrow> number \<Rightarrow> number" where
  "num_add NaN _ = NaN"
| "num_add _ NaN = NaN"
| "num_add (Finite a) (Finite b) = Finite (a + b)"
| "num_add PosInfinity NegInfinity = NaN"
| "num_add NegInfinity PosInfinity = NaN"
| "num_add PosInfinity _ = PosInfinity"
| "num_add NegInfinity _ = NegInfinity"
| "num_add _ PosInfinity = PosInfinity"
| "num_add _ NegInfinity = NegInfinity"

definition num_sub :: "number \<Rightarrow> number \<Rightarrow> number" where
  "num_sub a b = num_add a (num_neg b)"

text \<open>The product of an infinity and a number \<open>b\<close>: not a number when \<open>b\<close> is zero.\<close>

definition inf_times :: "bool \<Rightarrow> real \<Rightarrow> number" where
  "inf_times positive b =
     (if b = 0 then NaN else if (0 < b) = positive then PosInfinity else NegInfinity)"

fun num_mul :: "number \<Rightarrow> number \<Rightarrow> number" where
  "num_mul NaN _ = NaN"
| "num_mul _ NaN = NaN"
| "num_mul (Finite a) (Finite b) = Finite (a * b)"
| "num_mul PosInfinity (Finite b) = inf_times True b"
| "num_mul NegInfinity (Finite b) = inf_times False b"
| "num_mul (Finite a) PosInfinity = inf_times True a"
| "num_mul (Finite a) NegInfinity = inf_times False a"
| "num_mul PosInfinity PosInfinity = PosInfinity"
| "num_mul NegInfinity NegInfinity = PosInfinity"
| "num_mul PosInfinity NegInfinity = NegInfinity"
| "num_mul NegInfinity PosInfinity = NegInfinity"

fun num_div :: "number \<Rightarrow> number \<Rightarrow> number" where
  "num_div NaN _ = NaN"
| "num_div _ NaN = NaN"
| "num_div (Finite a) (Finite b) =
     (if b \<noteq> 0 then Finite (a / b)
      else if a = 0 then NaN
      else if 0 < a then PosInfinity else NegInfinity)"
| "num_div (Finite a) _ = Finite 0"
| "num_div PosInfinity (Finite b) = (if 0 \<le> b then PosInfinity else NegInfinity)"
| "num_div NegInfinity (Finite b) = (if 0 \<le> b then NegInfinity else PosInfinity)"
| "num_div _ _ = NaN"

fun num_sqrt :: "number \<Rightarrow> number" where
  "num_sqrt (Finite a) = (if a < 0 then NaN else Finite (sqrt a))"
| "num_sqrt PosInfinity = PosInfinity"
| "num_sqrt _ = NaN"

fun num_cos :: "number \<Rightarrow> number" where
  "num_cos (Finite a) = Finite (cos a)"
| "num_cos _ = NaN"

fun num_sin :: "number \<Rightarrow> number" where
  "num_sin (Finite a) = Finite (sin a)"
| "num_sin _ = NaN"

datatype vector3n = Vector3n (nx: number) (ny: number) (nz: number)

definition finite_vector :: "vector3 \<Rightarrow> vector3n" where
  "finite_vector v = Vector3n (Finite (vx v)) (Finite (vy v)) (Finite (vz v))"

definition randomInCone_num :: "number \<Rightarrow> number \<Rightarrow> rng \<Rightarrow> vector3n \<times> rng" where
  "randomInCone_num height radiusBase g0 =
     (let (u, g1) = Math_random g0;
          y = num_mul (Finite u) height;
          rAtHeight = num_mul (num_sub (Finite 1) (num_div y height)) radiusBase;
          (v, g2) = Math_random g1;
          theta = num_mul (num_mul (Finite v) (Finite pi)) (Finite 2);
          (w, g3) = Math_random g2;
          r = num_mul (num_sqrt (Finite w)) rAtHeight
      in (Vector3n (num_mul r (num_cos theta)) y (num_mul r (num_sin theta)), g3))"

definition randomOnConeSurface_num :: "number \<Rightarrow> number \<Rightarrow> rng \<Rightarrow> vector3n \<times> rng" where
  "randomOnConeSurface_num height radiusBase g0 =
     (let (u, g1) = Math_random g0;
          y = num_mul (Finite u) height;
          rAtHeight = num_mul (num_sub (Finite 1) (num_div y height)) radiusBase;
          (v, g2) = Math_random g1;
          theta = num_mul (num_mul (Finite v) (Finite pi)) (Finite 2);
          r = num_add rAtHeight (Finite 0.1)
      in (Vector3n (num_mul r (num_cos theta)) y (num_mul r (num_sin theta)), g2))"

subsection \<open>The element dataset\<close>

datatype color = Color string

record element =
  scatterPos :: vector3
  treePos :: vector3
  speed :: real

record needle = element +
  scatterRot :: euler
  treeRot :: euler

record ornament = element +
  color :: color
  scale :: real

text \<open>One pass of the loop body of \<^verbatim>\<open>needleData\<close>: thirteen draws, in the order of the source.\<close>

definition needleDatum :: "rng \<Rightarrow> needle \<times> rng" where
  "needleDatum g0 =
     (let (sp, g1) = randomInSphere SCATTER_RADIUS g0;
          (tp, g2) = randomInCone TREE_HEIGHT TREE_RADIUS_BASE g1;
          (a1, g3) = Math_random g2;
          (a2, g4) = Math_random g3;
          (a3, g5) = Math_random g4;
          tr = Euler ((a1 - 0.5) * 0.5) (a2 * pi * 2) ((a3 - 0.5) * 0.5);
          (b1, g6) = Math_random g5;
          (b2, g7) = Math_random g6;
          (b3, g8) = Math_random g7;
          sr = Euler (b1 * pi) (b2 * pi) (b3 * pi);
          (c, g9) = Math_random g8
      in (\<lparr>scatterPos = sp, treePos = tp, speed = 0.02 + c * 0.04,
           scatterRot = sr, treeRot = tr\<rparr>, g9))"

fun needleData_loop :: "nat \<Rightarrow> rng \<Rightarrow> needle list \<times> rng" where
  "needleData_loop 0 g = ([], g)"
| "needleData_loop (Suc n) g =
     (let (d, g1) = needleDatum g; (ds, g2) = needleData_loop n g1 in (d # ds, g2))"

definition needleData :: "rng \<Rightarrow> needle list \<times> rng" where
  "needleData g = needleData_loop PARTICLE_COUNT g"

definition colors :: "color list" where
  "colors = [Color ''#ffd700'', Color ''#ff3366'', Color ''#ffffff'']"

text \<open>
  One pass of the loop body of \<^verbatim>\<open>ornamentData\<close>. The palette index is
  \<^verbatim>\<open>Math.floor(Math.random() * colors.length)\<close>, below \<open>colors.length\<close> for a draw in
  \<open>[0, 1)\<close>.
\<close>

definition ornamentDatum :: "rng \<Rightarrow> ornament \<times> rng" where
  "ornamentDatum g0 =
     (let (sp, g1) = randomInSphere SCATTER_RADIUS g0;
          (tp, g2) = randomOnConeSurface TREE_HEIGHT TREE_RADIUS_BASE g1;
          (a, g3) = Math_random g2;
          col = colors ! nat \<lfloor>a * real (length colors)\<rfloor>;
          (b, g4) = Math_random g3;
          sc = 0.15 + b * 0.25;
          (c, g5) = Math_random g4
      in (\<lparr>scatterPos = sp, treePos = tp, speed = 0.015 + c * 0.03,
           color = col, scale = sc\<rparr>, g5))"

fun ornamentData_loop :: "nat \<Rightarrow> rng \<Rightarrow> ornament list \<times> rng" where
  "ornamentData_loop 0 g = ([], g)"
| "ornamentData_loop (Suc n) g =
     (let (d, g1) = ornamentDatum g; (ds, g2) = ornamentData_loop n g1 in (d # ds, g2))"

definition ornamentData :: "rng \<Rightarrow> ornament list \<times> rng" where
  "ornamentData g = ornamentData_loop ORNAMENT_COUNT g"

subsection \<open>The scene: instance buffers, the star and the shared scratch object\<close>

text \<open>
  Modelled from the spec: the enumeration \<^verbatim>\<open>TreeMorphState\<close>, which the component imports
  from \<^verbatim>\<open>../types\<close>. The spec gives the mode two values, scattered and arranged; the
  component compares it with \<^verbatim>\<open>TREE_SHAPE\<close>, the arranged one, and with nothing else.
\<close>

datatype TreeMorphState = SCATTERED | TREE_SHAPE

text \<open>
  An \<^verbatim>\<open>InstancedMesh\<close>: one matrix per instance and one colour slot per instance, a slot
  being \<open>None\<close> until \<^verbatim>\<open>setColorAt\<close> writes it. Both buffers are typed arrays, on which
  a write beyond the end does nothing.
\<close>

record instancedMesh =
  instanceMatrix :: "matrix4 list"
  instanceColor :: "color option list"

definition setMatrixAt :: "instancedMesh \<Rightarrow> nat \<Rightarrow> matrix4 \<Rightarrow> instancedMesh" where
  "setMatrixAt mesh i m = mesh\<lparr>instanceMatrix := (instanceMatrix mesh)[i := m]\<rparr>"

definition setColorAt :: "instancedMesh \<Rightarrow> nat \<Rightarrow> color \<Rightarrow> instancedMesh" where
  "setColorAt mesh i c = mesh\<lparr>instanceColor := (instanceColor mesh)[i := Some c]\<rparr>"

definition updateMatrix :: "object3d \<Rightarrow> matrix4" where
  "updateMatrix d = Matrix4_compose (obj_position d) (obj_quaternion d) (obj_scale d)"

record star =
  star_position_y :: real
  star_rotation_y :: real
  star_scale :: vector3

text \<open>
  The three refs are \<open>None\<close> while the mesh is not mounted. \<open>dummy\<close> is the one scratch
  \<^verbatim>\<open>Object3D\<close> that the layout effect and the frame loop share.
\<close>

record scene =
  needlesMesh :: "instancedMesh option"
  ornamentsMesh :: "instancedMesh option"
  starMesh :: "star option"
  dummy :: object3d

text \<open>
  The scene after mounting: buffers of the configured sizes, whose initial content \<open>m0\<close>
  is the library's, the star at the top of the tree, a fresh scratch object.
\<close>

definition mount :: "matrix4 \<Rightarrow> scene" where
  "mount m0 =
     \<lparr>needlesMesh = Some \<lparr>instanceMatrix = replicate PARTICLE_COUNT m0,
                           instanceColor = replicate PARTICLE_COUNT None\<rparr>,
      ornamentsMesh = Some \<lparr>instanceMatrix = replicate ORNAMENT_COUNT m0,
                             instanceColor = replicate ORNAMENT_COUNT None\<rparr>,
      starMesh = Some \<lparr>star_position_y = TREE_HEIGHT + 0.5, star_rotation_y = 0,
                        star_scale = Vector3 1 1 1\<rparr>,
      dummy = Object3D_new\<rparr>"

subsection \<open>The layout effect: initial colours and scales\<close>

definition layoutOrnament :: "nat \<Rightarrow> ornament \<Rightarrow> instancedMesh \<times> object3d \<Rightarrow> instancedMesh \<times> object3d" where
  "layoutOrnament i data md =
     (let (mesh, d) = md;
          d1 = d\<lparr>obj_scale := Vector3_setScalar (scale data)\<rparr>
      in (setColorAt (setMatrixAt mesh i (updateMatrix d1)) i (color data), d1))"

definition layoutNeedle :: "nat \<Rightarrow> needle \<Rightarrow> instancedMesh \<times> object3d \<Rightarrow> instancedMesh \<times> object3d" where
  "layoutNeedle i data md =
     (let (mesh, d) = md;
          d1 = d\<lparr>obj_scale := Vector3 0.1 0.4 0.1\<rparr>
      in (setMatrixAt mesh i (updateMatrix d1), d1))"

text \<open>\<^verbatim>\<open>xs.forEach((data, i) => body)\<close> over a mesh and the scratch object.\<close>

definition forEach ::
  "(nat \<Rightarrow> 'a \<Rightarrow> instancedMesh \<times> object3d \<Rightarrow> instancedMesh \<times> object3d) \<Rightarrow> 'a list
   \<Rightarrow> instancedMesh \<times> object3d \<Rightarrow> instancedMesh \<times> object3d" where
  "forEach body xs md = fold (\<lambda>(i, data). body i data) (enumerate 0 xs) md"

definition useLayoutEffect :: "needle list \<Rightarrow> ornament list \<Rightarrow> scene \<Rightarrow> scene" where
  "useLayoutEffect nData oData s0 =
     (let s1 = (case ornamentsMesh s0 of
                  None \<Rightarrow> s0
                | Some mesh \<Rightarrow>
                    (let (mesh1, d1) = forEach layoutOrnament oData (mesh, dummy s0)
                     in s0\<lparr>ornamentsMesh := Some mesh1, dummy := d1\<rparr>))
      in (case needlesMesh s1 of
            None \<Rightarrow> s1
          | Some mesh \<Rightarrow>
              (let (mesh1, d1) = forEach layoutNeedle nData (mesh, dummy s1)
               in s1\<lparr>needlesMesh := Some mesh1, dummy := d1\<rparr>)))"

subsection \<open>The frame loop\<close>

text \<open>
  \<^verbatim>\<open>Quaternion.slerp\<close> is the library's and is not part of the component; the frame loop
  is parametric in it.
\<close>

type_synonym slerp = "quaternion \<Rightarrow> quaternion \<Rightarrow> real \<Rightarrow> quaternion"

text \<open>
  The target that a needle's position is blended toward (\<open>tempVec\<close>), and the target of
  its orientation (\<open>targetQuat\<close>).
\<close>

definition needleTempVec :: "bool \<Rightarrow> real \<Rightarrow> nat \<Rightarrow> needle \<Rightarrow> vector3" where
  "needleTempVec isTree time i data =
     (let targetPos = (if isTree then treePos data else scatterPos data)
      in if \<not> isTree then Vector3_addScalar targetPos (sin (time + real i) * 0.5)
         else targetPos)"

definition needleTargetQuat :: "bool \<Rightarrow> real \<Rightarrow> needle \<Rightarrow> quaternion" where
  "needleTargetQuat isTree time data =
     (let targetRot = (if isTree then treeRot data else scatterRot data);
          targetQuat = Quaternion_setFromEuler targetRot
      in if \<not> isTree
         then Quaternion_multiply targetQuat
                (Quaternion_setFromAxisAngle (Vector3 0 1 0) (time * 0.1))
         else targetQuat)"

text \<open>
  The body of the needle loop on the matrix read from the buffer: the scratch object
  just before \<^verbatim>\<open>dummy.updateMatrix()\<close>.
\<close>

definition needleTransform :: "slerp \<Rightarrow> bool \<Rightarrow> real \<Rightarrow> real \<Rightarrow> nat \<Rightarrow> needle \<Rightarrow> matrix4 \<Rightarrow> object3d" where
  "needleTransform sl isTree time delta i data m =
     (let d0 = Matrix4_decompose m
      in \<lparr>obj_position =
            Vector3_lerp (obj_position d0) (needleTempVec isTree time i data)
              (speed data * 60 * delta),
          obj_quaternion =
            sl (obj_quaternion d0) (needleTargetQuat isTree time data)
              (speed data * 60 * delta),
          obj_scale = Vector3_setScalar (if isTree then 1 else 0.5)\<rparr>)"

text \<open>
  One pass of the needle loop. For an index beyond the buffer the write does nothing, so
  the buffer is as before; what the scratch object holds then is not modelled.
\<close>

definition animateNeedle ::
  "slerp \<Rightarrow> bool \<Rightarrow> real \<Rightarrow> real \<Rightarrow> nat \<Rightarrow> needle \<Rightarrow> instancedMesh \<times> object3d
   \<Rightarrow> instancedMesh \<times> object3d" where
  "animateNeedle sl isTree time delta i data md =
     (let (mesh, d) = md
      in if i < length (instanceMatrix mesh)
         then (let d1 = needleTransform sl isTree time delta i data (instanceMatrix mesh ! i)
               in (setMatrixAt mesh i (updateMatrix d1), d1))
         else (mesh, d))"

definition ornamentTempVec :: "bool \<Rightarrow> real \<Rightarrow> nat \<Rightarrow> ornament \<Rightarrow> vector3" where
  "ornamentTempVec isTree time i data =
     (let targetPos = (if isTree then treePos data else scatterPos data)
      in if isTree
         then Vector3 (vx targetPos) (vy targetPos + sin (time * 2 + real i) * 0.05)
                (vz targetPos)
         else Vector3_add targetPos
                (Vector3 (sin (time * 0.5 + real i)) (cos (time * 0.3 + real i))
                   (sin (time * 0.7 + real i))))"

definition ornamentTransform :: "bool \<Rightarrow> real \<Rightarrow> real \<Rightarrow> nat \<Rightarrow> ornament \<Rightarrow> matrix4 \<Rightarrow> object3d" where
  "ornamentTransform isTree time delta i data m =
     (let d0 = Matrix4_decompose m
      in \<lparr>obj_position =
            Vector3_lerp (obj_position d0) (ornamentTempVec isTree time i data)
              (speed data * 50 * delta),
          obj_quaternion = Quaternion_setFromEuler (Euler 0 (time * 0.5 + real i) 0),
          obj_scale = obj_scale d0\<rparr>)"

definition animateOrnament ::
  "bool \<Rightarrow> real \<Rightarrow> real \<Rightarrow> nat \<Rightarrow> ornament \<Rightarrow> instancedMesh \<times> object3d
   \<Rightarrow> instancedMesh \<times> object3d" where
  "animateOrnament isTree time delta i data md =
     (let (mesh, d) = md
      in if i < length (instanceMatrix mesh)
         then (let d1 = ornamentTransform isTree time delta i data (instanceMatrix mesh ! i)
               in (setMatrixAt mesh i (updateMatrix d1), d1))
         else (mesh, d))"

definition animateStar :: "bool \<Rightarrow> real \<Rightarrow> star \<Rightarrow> star" where
  "animateStar isTree delta st =
     (let targetY = (if isTree then TREE_HEIGHT + 0.5 else 20);
          currentY = star_position_y st
      in \<lparr>star_position_y = MathUtils_lerp currentY targetY (delta * 2),
          star_rotation_y = star_rotation_y st + delta * 0.5,
          star_scale = Vector3_setScalar
            (MathUtils_lerp (vx (star_scale st)) (if isTree then 1.5 else 0) (delta * 3))\<rparr>)"

definition useFrame ::
  "slerp \<Rightarrow> needle list \<Rightarrow> ornament list \<Rightarrow> TreeMorphState \<Rightarrow> real \<Rightarrow> real \<Rightarrow> scene \<Rightarrow> scene" where
  "useFrame sl nData oData treeState time delta s0 =
     (let isTree = (treeState = TREE_SHAPE);
          s1 = (case needlesMesh s0 of
                  None \<Rightarrow> s0
                | Some mesh \<Rightarrow>
                    (let (mesh1, d1) =
                           forEach (animateNeedle sl isTree time delta) nData (mesh, dummy s0)
                     in s0\<lparr>needlesMesh := Some mesh1, dummy := d1\<rparr>));
          s2 = (case ornamentsMesh s1 of
                  None \<Rightarrow> s1
                | Some mesh \<Rightarrow>
                    (let (mesh1, d1) =
                           forEach (animateOrnament isTree time delta) oData (mesh, dummy s1)
                     in s1\<lparr>ornamentsMesh := Some mesh1, dummy := d1\<rparr>))
      in (case starMesh s2 of
            None \<Rightarrow> s2
          | Some st \<Rightarrow> s2\<lparr>starMesh := Some (animateStar isTree delta st)\<rparr>))"

text \<open>
  A frame as the render loop supplies it: the mode in force, the elapsed time and the
  frame delta. \<open>frames\<close> runs the frame loop over a sequence of them.
\<close>

datatype frame = Frame (frame_mode: TreeMorphState) (frame_time: real) (frame_delta: real)

definition frames :: "slerp \<Rightarrow> needle list \<Rightarrow> ornament list \<Rightarrow> frame list \<Rightarrow> scene \<Rightarrow> scene" where
  "frames sl nData oData fs s =
     fold (\<lambda>f. useFrame sl nData oData (frame_mode f) (frame_time f) (frame_delta f)) fs s"

text \<open>
  What the render surface reads: the matrices and the colour slots of a mesh, none while
  the mesh is not mounted.
\<close>

definition needleMatrices :: "scene \<Rightarrow> matrix4 list" where
  "needleMatrices s = (case needlesMesh s of None \<Rightarrow> [] | Some mesh \<Rightarrow> instanceMatrix mesh)"

definition ornamentMatrices :: "scene \<Rightarrow> matrix4 list" where
  "ornamentMatrices s = (case ornamentsMesh s of None \<Rightarrow> [] | Some mesh \<Rightarrow> instanceMatrix mesh)"

definition ornamentColors :: "scene \<Rightarrow> color option list" where
  "ornamentColors s = (case ornamentsMesh s of None \<Rightarrow> [] | Some mesh \<Rightarrow> instanceColor mesh)"

text \<open>The position stored in a matrix of the buffer: its fourth column.\<close>

definition matrixPosition :: "matrix4 \<Rightarrow> vector3" where
  "matrixPosition m = Vector3 (te12 m) (te13 m) (te14 m)"

text \<open>
  The two memoised tables, built in the order in which the component evaluates them: the
  needles first, the ornaments from the draws that follow.
\<close>

definition dataset :: "rng \<Rightarrow> needle list \<times> ornament list" where
  "dataset g = (let (nData, g1) = needleData g; (oData, g2) = ornamentData g1 in (nData, oData))"

text \<open>
  A render loop at sixty frames per second: \<open>n\<close> frames in one mode, the clock starting
  at \<open>t0\<close>.
\<close>

definition framesAt60 :: "TreeMorphState \<Rightarrow> real \<Rightarrow> nat \<Rightarrow> frame list" where
  "framesAt60 mode t0 n = map (\<lambda>k. Frame mode (t0 + real (Suc k) / 60) (1 / 60)) [0..<n]"

text \<open>
  A stream of draws for the concrete runs. The first needle built from it has the
  scattered position \<open>(-7.5, 0, 0)\<close>, the height \<open>4\<close> in the tree and the speed \<open>0.02\<close>.
\<close>

definition exampleDraws :: rng where
  "exampleDraws n = (if n = 2 then 1 / 8 else if n = 12 then 0 else 1 / 2)"

text \<open>An ornament as the dataset builder can produce it, and its matrix after the layout effect.\<close>

definition exampleOrnament :: ornament where
  "exampleOrnament =
     \<lparr>scatterPos = Vector3 0 0 (- (15 / 2)), treePos = Vector3 (18 / 5) 0 0, speed = 1 / 32,
      color = Color ''#ffd700'', scale = 1 / 4\<rparr>"

definition exampleOrnamentMatrix :: matrix4 where
  "exampleOrnamentMatrix = Matrix4 (1 / 4) 0 0 0  0 (1 / 4) 0 0  0 0 (1 / 4) 0  0 0 0 1"

text \<open>
  The scene in which the first frame runs: the scene after mounting, its buffers filled
  with the identity, after the layout effect for the dataset built from \<open>exampleDraws\<close>.
\<close>

definition exampleScene :: scene where
  "exampleScene =
     useLayoutEffect (fst (dataset exampleDraws)) (snd (dataset exampleDraws))
       (mount Matrix4_identity)"

section \<open>Properties\<close>

subsection \<open>The loops over the instance buffers\<close>

lemma forEach_buffer:
  assumes inv: "\<And>i x md. I md \<Longrightarrow> I (body i x md)"
    and body: "\<And>i x md. I md \<Longrightarrow>
                 proj (fst (body i x md)) = (proj (fst md))[i := F i x (proj (fst md) ! i)]"
    and "I md"
  shows "I (fold (\<lambda>(i, data). body i data) (enumerate k xs) md)
         \<and> proj (fst (fold (\<lambda>(i, data). body i data) (enumerate k xs) md))
           = map (\<lambda>j. if k \<le> j \<and> j < k + length xs
                        then F j (xs ! (j - k)) (proj (fst md) ! j)
                        else proj (fst md) ! j)
                 [0..<length (proj (fst md))]"
  using \<open>I md\<close>
proof (induction xs arbitrary: k md)
  case Nil
  then show ?case by (auto intro!: nth_equalityI)
next
  case (Cons x xs)
  let ?buf = "proj (fst md)"
  let ?md1 = "body k x md"
  have I1: "I ?md1" using Cons.prems by (rule inv)
  have buf1: "proj (fst ?md1) = ?buf[k := F k x (?buf ! k)]"
    using Cons.prems by (rule body)
  have unfold: "fold (\<lambda>(i, data). body i data) (enumerate k (x # xs)) md
        = fold (\<lambda>(i, data). body i data) (enumerate (Suc k) xs) ?md1"
    by simp
  have "proj (fst (fold (\<lambda>(i, data). body i data) (enumerate (Suc k) xs) ?md1))
        = map (\<lambda>j. if Suc k \<le> j \<and> j < Suc k + length xs
                      then F j (xs ! (j - Suc k)) (?buf[k := F k x (?buf ! k)] ! j)
                      else ?buf[k := F k x (?buf ! k)] ! j)
               [0..<length ?buf]"
    using Cons.IH [OF I1, of "Suc k"] by (simp add: buf1)
  also have "\<dots> = map (\<lambda>j. if k \<le> j \<and> j < k + length (x # xs)
                      then F j ((x # xs) ! (j - k)) (?buf ! j)
                      else ?buf ! j)
               [0..<length ?buf]"
  proof (rule map_cong [OF refl])
    fix j assume "j \<in> set [0..<length ?buf]"
    then have j: "j < length ?buf" by simp
    consider "j < k" | "j = k" | "Suc k \<le> j" by linarith
    then show "(if Suc k \<le> j \<and> j < Suc k + length xs
                then F j (xs ! (j - Suc k)) (?buf[k := F k x (?buf ! k)] ! j)
                else ?buf[k := F k x (?buf ! k)] ! j)
             = (if k \<le> j \<and> j < k + length (x # xs)
                then F j ((x # xs) ! (j - k)) (?buf ! j) else ?buf ! j)"
    proof cases
      case 1 then show ?thesis by simp
    next
      case 2 with j show ?thesis by simp
    next
      case 3
      then have "j - k = Suc (j - Suc k)" "j \<noteq> k" "k \<le> j" by simp_all
      then show ?thesis by simp
    qed
  qed
  finally show ?case using Cons.IH [OF I1, of "Suc k"] unfolding unfold by simp
qed

lemma forEach_nth:
  assumes inv: "\<And>i x md. I md \<Longrightarrow> I (body i x md)"
    and body: "\<And>i x md. I md \<Longrightarrow>
                 proj (fst (body i x md)) = (proj (fst md))[i := F i x (proj (fst md) ! i)]"
    and "I md" and "j < length (proj (fst md))"
  shows "proj (fst (forEach body xs md)) ! j
         = (if j < length xs then F j (xs ! j) (proj (fst md) ! j) else proj (fst md) ! j)"
  unfolding forEach_def using assms(4)
  by (simp add: forEach_buffer [of I body proj F, OF inv body \<open>I md\<close>])

lemma forEach_length:
  assumes inv: "\<And>i x md. I md \<Longrightarrow> I (body i x md)"
    and body: "\<And>i x md. I md \<Longrightarrow>
                 proj (fst (body i x md)) = (proj (fst md))[i := F i x (proj (fst md) ! i)]"
    and "I md"
  shows "length (proj (fst (forEach body xs md))) = length (proj (fst md))"
  unfolding forEach_def
  by (simp add: forEach_buffer [of I body proj F, OF inv body \<open>I md\<close>])

lemma forEach_invariant:
  assumes inv: "\<And>i x md. I md \<Longrightarrow> I (body i x md)" and "I md"
  shows "I (forEach body xs md)"
  unfolding forEach_def
  using forEach_buffer [of I body "\<lambda>_. []" "\<lambda>_ _ _. undefined", OF inv _ \<open>I md\<close>] by simp

lemma animateNeedle_matrix:
  "instanceMatrix (fst (animateNeedle sl isTree time delta i x md))
   = (instanceMatrix (fst md))
       [i := updateMatrix (needleTransform sl isTree time delta i x (instanceMatrix (fst md) ! i))]"
  by (cases md) (simp add: animateNeedle_def setMatrixAt_def Let_def list_update_beyond)

lemma animateNeedle_color:
  "instanceColor (fst (animateNeedle sl isTree time delta i x md))
   = (instanceColor (fst md))[i := instanceColor (fst md) ! i]"
  by (cases md) (simp add: animateNeedle_def setMatrixAt_def Let_def)

lemma animateOrnament_matrix:
  "instanceMatrix (fst (animateOrnament isTree time delta i x md))
   = (instanceMatrix (fst md))
       [i := updateMatrix (ornamentTransform isTree time delta i x (instanceMatrix (fst md) ! i))]"
  by (cases md) (simp add: animateOrnament_def setMatrixAt_def Let_def list_update_beyond)

lemma animateOrnament_color:
  "instanceColor (fst (animateOrnament isTree time delta i x md))
   = (instanceColor (fst md))[i := instanceColor (fst md) ! i]"
  by (cases md) (simp add: animateOrnament_def setMatrixAt_def Let_def)

lemma forEach_animateNeedle_nth:
  assumes "j < length (instanceMatrix mesh)"
  shows "instanceMatrix (fst (forEach (animateNeedle sl isTree time delta) xs (mesh, d))) ! j
         = (if j < length xs
            then updateMatrix (needleTransform sl isTree time delta j (xs ! j) (instanceMatrix mesh ! j))
            else instanceMatrix mesh ! j)"
  using forEach_nth
          [where I = "\<lambda>_. True" and body = "animateNeedle sl isTree time delta"
             and proj = instanceMatrix
             and F = "\<lambda>i x m. updateMatrix (needleTransform sl isTree time delta i x m)"
             and md = "(mesh, d)" and j = j and xs = xs]
        assms
  by (simp add: animateNeedle_matrix)

lemma forEach_animateNeedle_length:
  "length (instanceMatrix (fst (forEach (animateNeedle sl isTree time delta) xs (mesh, d))))
   = length (instanceMatrix mesh)"
  using forEach_length
          [where I = "\<lambda>_. True" and body = "animateNeedle sl isTree time delta"
             and proj = instanceMatrix
             and F = "\<lambda>i x m. updateMatrix (needleTransform sl isTree time delta i x m)"
             and md = "(mesh, d)" and xs = xs]
  by (simp add: animateNeedle_matrix)

lemma forEach_animateOrnament_nth:
  assumes "j < length (instanceMatrix mesh)"
  shows "instanceMatrix (fst (forEach (animateOrnament isTree time delta) xs (mesh, d))) ! j
         = (if j < length xs
            then updateMatrix (ornamentTransform isTree time delta j (xs ! j) (instanceMatrix mesh ! j))
            else instanceMatrix mesh ! j)"
  using forEach_nth
          [where I = "\<lambda>_. True" and body = "animateOrnament isTree time delta"
             and proj = instanceMatrix
             and F = "\<lambda>i x m. updateMatrix (ornamentTransform isTree time delta i x m)"
             and md = "(mesh, d)" and j = j and xs = xs]
        assms
  by (simp add: animateOrnament_matrix)

lemma forEach_animateOrnament_length:
  "length (instanceMatrix (fst (forEach (animateOrnament isTree time delta) xs (mesh, d))))
   = length (instanceMatrix mesh)"
  using forEach_length
          [where I = "\<lambda>_. True" and body = "animateOrnament isTree time delta"
             and proj = instanceMatrix
             and F = "\<lambda>i x m. updateMatrix (ornamentTransform isTree time delta i x m)"
             and md = "(mesh, d)" and xs = xs]
  by (simp add: animateOrnament_matrix)

lemma forEach_animateOrnament_color:
  "instanceColor (fst (forEach (animateOrnament isTree time delta) xs (mesh, d)))
   = instanceColor mesh"
proof (rule nth_equalityI)
  show len: "length (instanceColor (fst (forEach (animateOrnament isTree time delta) xs (mesh, d))))
        = length (instanceColor mesh)"
    using forEach_length
          [where I = "\<lambda>_. True" and body = "animateOrnament isTree time delta"
             and proj = instanceColor and F = "\<lambda>i x c. c" and md = "(mesh, d)" and xs = xs]
    by (simp add: animateOrnament_color)
  fix j assume "j < length (instanceColor (fst (forEach (animateOrnament isTree time delta) xs (mesh, d))))"
  then have "j < length (instanceColor mesh)" by (simp add: len)
  then show "instanceColor (fst (forEach (animateOrnament isTree time delta) xs (mesh, d))) ! j
             = instanceColor mesh ! j"
    using forEach_nth
          [where I = "\<lambda>_. True" and body = "animateOrnament isTree time delta"
             and proj = instanceColor and F = "\<lambda>i x c. c" and md = "(mesh, d)" and xs = xs
             and j = j]
    by (simp add: animateOrnament_color)
qed

lemma needlesMesh_useFrame:
  "needlesMesh (useFrame sl nData oData treeState time delta s)
   = (case needlesMesh s of
        None \<Rightarrow> None
      | Some mesh \<Rightarrow>
          Some (fst (forEach (animateNeedle sl (treeState = TREE_SHAPE) time delta) nData
                       (mesh, dummy s))))"
  by (cases "needlesMesh s"; cases "ornamentsMesh s"; cases "starMesh s")
     (simp_all add: useFrame_def Let_def case_prod_beta)

lemma ornamentsMesh_useFrame:
  "\<exists>d. ornamentsMesh (useFrame sl nData oData treeState time delta s)
        = (case ornamentsMesh s of
             None \<Rightarrow> None
           | Some mesh \<Rightarrow>
               Some (fst (forEach (animateOrnament (treeState = TREE_SHAPE) time delta) oData
                            (mesh, d))))"
  by (cases "needlesMesh s"; cases "ornamentsMesh s"; cases "starMesh s")
     (auto simp: useFrame_def Let_def case_prod_beta)

lemma needleMatrices_useFrame_length:
  "length (needleMatrices (useFrame sl nData oData treeState time delta s))
   = length (needleMatrices s)"
  by (simp add: needleMatrices_def needlesMesh_useFrame
        forEach_animateNeedle_length split: option.splits)

lemma needleMatrices_useFrame_nth:
  assumes "i < length (needleMatrices s)"
  shows "needleMatrices (useFrame sl nData oData treeState time delta s) ! i
         = (if i < length nData
            then updateMatrix (needleTransform sl (treeState = TREE_SHAPE) time delta i
                                 (nData ! i) (needleMatrices s ! i))
            else needleMatrices s ! i)"
  using assms
  by (simp add: needleMatrices_def needlesMesh_useFrame
        forEach_animateNeedle_nth split: option.splits)

lemma ornamentMatrices_useFrame_length:
  "length (ornamentMatrices (useFrame sl nData oData treeState time delta s))
   = length (ornamentMatrices s)"
  using ornamentsMesh_useFrame [of sl nData oData treeState time delta s]
  by (auto simp: ornamentMatrices_def
        forEach_animateOrnament_length split: option.splits)

lemma ornamentMatrices_useFrame_nth:
  assumes "i < length (ornamentMatrices s)"
  shows "ornamentMatrices (useFrame sl nData oData treeState time delta s) ! i
         = (if i < length oData
            then updateMatrix (ornamentTransform (treeState = TREE_SHAPE) time delta i
                                 (oData ! i) (ornamentMatrices s ! i))
            else ornamentMatrices s ! i)"
  using assms ornamentsMesh_useFrame [of sl nData oData treeState time delta s]
  by (auto simp: ornamentMatrices_def
        forEach_animateOrnament_nth split: option.splits)

lemma ornamentColors_useFrame:
  "ornamentColors (useFrame sl nData oData treeState time delta s) = ornamentColors s"
  using ornamentsMesh_useFrame [of sl nData oData treeState time delta s]
  by (auto simp: ornamentColors_def
        forEach_animateOrnament_color split: option.splits)


subsection \<open>Composing and decomposing a transform\<close>

lemma matrixPosition_updateMatrix: "matrixPosition (updateMatrix d) = obj_position d"
  by (simp add: matrixPosition_def updateMatrix_def Matrix4_compose_def Let_def)

lemma obj_position_decompose: "obj_position (Matrix4_decompose m) = matrixPosition m"
  by (simp add: matrixPosition_def Matrix4_decompose_def Let_def)

lemma rotation_column0:
  fixes x y z w :: real
  assumes "x * x + y * y + z * z + w * w = 1"
  shows "(1 - (y * (y + y) + z * (z + z)))\<^sup>2 + (x * (y + y) + w * (z + z))\<^sup>2 + (x * (z + z) - w * (y + y))\<^sup>2 = 1"
proof -
  have "(1 - (y * (y + y) + z * (z + z)))\<^sup>2 + (x * (y + y) + w * (z + z))\<^sup>2 + (x * (z + z) - w * (y + y))\<^sup>2
        = 1 + 4 * (y * y + z * z) * (x * x + y * y + z * z + w * w - 1)"
    by (simp add: power2_eq_square algebra_simps)
  then show ?thesis using assms by simp
qed

lemma rotation_column1:
  fixes x y z w :: real
  assumes "x * x + y * y + z * z + w * w = 1"
  shows "(x * (y + y) - w * (z + z))\<^sup>2 + (1 - (x * (x + x) + z * (z + z)))\<^sup>2 + (y * (z + z) + w * (x + x))\<^sup>2 = 1"
proof -
  have "(x * (y + y) - w * (z + z))\<^sup>2 + (1 - (x * (x + x) + z * (z + z)))\<^sup>2 + (y * (z + z) + w * (x + x))\<^sup>2
        = 1 + 4 * (x * x + z * z) * (x * x + y * y + z * z + w * w - 1)"
    by (simp add: power2_eq_square algebra_simps)
  then show ?thesis using assms by simp
qed

lemma rotation_column2:
  fixes x y z w :: real
  assumes "x * x + y * y + z * z + w * w = 1"
  shows "(x * (z + z) + w * (y + y))\<^sup>2 + (y * (z + z) - w * (x + x))\<^sup>2 + (1 - (x * (x + x) + y * (y + y)))\<^sup>2 = 1"
proof -
  have "(x * (z + z) + w * (y + y))\<^sup>2 + (y * (z + z) - w * (x + x))\<^sup>2 + (1 - (x * (x + x) + y * (y + y)))\<^sup>2
        = 1 + 4 * (x * x + y * y) * (x * x + y * y + z * z + w * w - 1)"
    by (simp add: power2_eq_square algebra_simps)
  then show ?thesis using assms by simp
qed

lemma rotation_determinant:
  fixes x y z w :: real
  assumes "x * x + y * y + z * z + w * w = 1"
  shows "  - (x * (z + z) + w * (y + y)) * (1 - (x * (x + x) + z * (z + z))) * (x * (z + z) - w * (y + y))
           - (1 - (y * (y + y) + z * (z + z))) * (y * (z + z) - w * (x + x)) * (y * (z + z) + w * (x + x))
           + (1 - (y * (y + y) + z * (z + z))) * (1 - (x * (x + x) + z * (z + z))) * (1 - (x * (x + x) + y * (y + y)))
           + (x * (z + z) + w * (y + y)) * (x * (y + y) + w * (z + z)) * (y * (z + z) + w * (x + x))
           - (x * (y + y) - w * (z + z)) * (x * (y + y) + w * (z + z)) * (1 - (x * (x + x) + y * (y + y)))
           + (x * (y + y) - w * (z + z)) * (y * (z + z) - w * (x + x)) * (x * (z + z) - w * (y + y)) = 1"
  using assms by algebra


lemma sqrt_scaled:
  fixes a u v w :: real
  assumes "u\<^sup>2 + v\<^sup>2 + w\<^sup>2 = 1"
  shows "sqrt (u * a * (u * a) + v * a * (v * a) + w * a * (w * a)) = \<bar>a\<bar>"
proof -
  have "u * a * (u * a) + v * a * (v * a) + w * a * (w * a) = (u\<^sup>2 + v\<^sup>2 + w\<^sup>2) * a\<^sup>2"
    by (simp add: power2_eq_square algebra_simps)
  then show ?thesis using assms by simp
qed

lemma compose_lengths:
  assumes "unitq q"
  shows "Vector3_length (Vector3 (te0 (Matrix4_compose p q s)) (te1 (Matrix4_compose p q s))
           (te2 (Matrix4_compose p q s))) = \<bar>vx s\<bar>"
    and "Vector3_length (Vector3 (te4 (Matrix4_compose p q s)) (te5 (Matrix4_compose p q s))
           (te6 (Matrix4_compose p q s))) = \<bar>vy s\<bar>"
    and "Vector3_length (Vector3 (te8 (Matrix4_compose p q s)) (te9 (Matrix4_compose p q s))
           (te10 (Matrix4_compose p q s))) = \<bar>vz s\<bar>"
proof -
  have u: "qx q * qx q + qy q * qy q + qz q * qz q + qw q * qw q = 1"
    using assms by (simp add: unitq_def)
  show "Vector3_length (Vector3 (te0 (Matrix4_compose p q s)) (te1 (Matrix4_compose p q s))
           (te2 (Matrix4_compose p q s))) = \<bar>vx s\<bar>"
    unfolding Vector3_length_def Matrix4_compose_def Let_def vector3.sel matrix4.sel
    by (rule sqrt_scaled [OF rotation_column0 [OF u]])
  show "Vector3_length (Vector3 (te4 (Matrix4_compose p q s)) (te5 (Matrix4_compose p q s))
           (te6 (Matrix4_compose p q s))) = \<bar>vy s\<bar>"
    unfolding Vector3_length_def Matrix4_compose_def Let_def vector3.sel matrix4.sel
    by (rule sqrt_scaled [OF rotation_column1 [OF u]])
  show "Vector3_length (Vector3 (te8 (Matrix4_compose p q s)) (te9 (Matrix4_compose p q s))
           (te10 (Matrix4_compose p q s))) = \<bar>vz s\<bar>"
    unfolding Vector3_length_def Matrix4_compose_def Let_def vector3.sel matrix4.sel
    by (rule sqrt_scaled [OF rotation_column2 [OF u]])
qed

lemma compose_determinant:
  assumes "unitq q"
  shows "Matrix4_determinant (Matrix4_compose p q s) = vx s * vy s * vz s"
proof -
  have u: "qx q * qx q + qy q * qy q + qz q * qz q + qw q * qw q = 1"
    using assms by (simp add: unitq_def)
  have "Matrix4_determinant (Matrix4_compose p q s)
        = vx s * vy s * vz s *
          (- (qx q * (qz q + qz q) + qw q * (qy q + qy q)) * (1 - (qx q * (qx q + qx q) + qz q * (qz q + qz q))) * (qx q * (qz q + qz q) - qw q * (qy q + qy q))
           - (1 - (qy q * (qy q + qy q) + qz q * (qz q + qz q))) * (qy q * (qz q + qz q) - qw q * (qx q + qx q)) * (qy q * (qz q + qz q) + qw q * (qx q + qx q))
           + (1 - (qy q * (qy q + qy q) + qz q * (qz q + qz q))) * (1 - (qx q * (qx q + qx q) + qz q * (qz q + qz q))) * (1 - (qx q * (qx q + qx q) + qy q * (qy q + qy q)))
           + (qx q * (qz q + qz q) + qw q * (qy q + qy q)) * (qx q * (qy q + qy q) + qw q * (qz q + qz q)) * (qy q * (qz q + qz q) + qw q * (qx q + qx q))
           - (qx q * (qy q + qy q) - qw q * (qz q + qz q)) * (qx q * (qy q + qy q) + qw q * (qz q + qz q)) * (1 - (qx q * (qx q + qx q) + qy q * (qy q + qy q)))
           + (qx q * (qy q + qy q) - qw q * (qz q + qz q)) * (qy q * (qz q + qz q) - qw q * (qx q + qx q)) * (qx q * (qz q + qz q) - qw q * (qy q + qy q)))"
    unfolding Matrix4_determinant_def Matrix4_compose_def Let_def matrix4.sel
    by (simp add: algebra_simps)
  then show ?thesis by (simp only: rotation_determinant [OF u] mult_1_right)
qed

lemma decompose_compose_scale:
  assumes q: "unitq q" and y: "0 \<le> vy s" and z: "0 \<le> vz s"
    and x: "vx s < 0 \<longrightarrow> vy s * vz s \<noteq> 0"
  shows "obj_scale (Matrix4_decompose (Matrix4_compose p q s)) = s"
proof -
  have sx: "(if vx s * vy s * vz s < 0 then - \<bar>vx s\<bar> else \<bar>vx s\<bar>) = vx s"
  proof (cases "vx s < 0")
    case True
    with x y z have "0 < vy s * vz s" by (metis less_eq_real_def mult_nonneg_nonneg)
    with True have "vx s * (vy s * vz s) < 0" by (rule mult_neg_pos)
    with True show ?thesis by (simp add: mult.assoc)
  next
    case False
    with y z have "0 \<le> vx s * vy s * vz s" by simp
    with False show ?thesis by simp
  qed
  show ?thesis
    using sx y z
    by (cases s) (auto simp add: Matrix4_decompose_def Let_def compose_lengths [OF q]
        compose_determinant [OF q] split: if_splits)
qed


subsection \<open>The spatial samplers\<close>

lemma uniform_draws_exampleDraws: "uniform_draws exampleDraws"
  by (simp add: uniform_draws_def exampleDraws_def)

lemma sphere_length:
  fixes r :: real
  assumes "0 \<le> r"
  shows "sqrt (r * sin p * cos t * (r * sin p * cos t) + r * sin p * sin t * (r * sin p * sin t)
              + r * cos p * (r * cos p)) = r"
proof -
  have alg: "\<And>sp cp st ct :: real. ct * ct + st * st = 1 \<Longrightarrow> sp * sp + cp * cp = 1 \<Longrightarrow>
         r * sp * ct * (r * sp * ct) + r * sp * st * (r * sp * st) + r * cp * (r * cp) = r * r"
    by algebra
  have "r * sin p * cos t * (r * sin p * cos t) + r * sin p * sin t * (r * sin p * sin t)
        + r * cos p * (r * cos p) = r * r"
    by (rule alg) (simp_all add: add.commute)
  then show ?thesis using assms by simp
qed

text \<open>
  Claim C6. For every radius \<open>R > 0\<close> and draws in \<open>[0, 1)\<close>, \<open>randomInSphere R\<close>
  returns the point with azimuth \<open>2\<pi>u\<close>, inclination \<open>arccos (2v - 1)\<close> and distance
  \<open>cbrt w * R\<close> from the origin, \<open>u\<close>, \<open>v\<close>, \<open>w\<close> being the three draws in the order
  of the calls; the point lies inside the sphere of radius \<open>R\<close>, and the cube of its
  distance from the origin is \<open>w * R^3\<close>.
\<close>

theorem randomInSphere_uniform_by_volume:
  assumes R: "0 < R" and g: "uniform_draws g"
  shows "fst (randomInSphere R g)
           = Vector3 (root 3 (g 2) * R * sin (arccos (2 * g 1 - 1)) * cos (2 * pi * g 0))
                     (root 3 (g 2) * R * sin (arccos (2 * g 1 - 1)) * sin (2 * pi * g 0))
                     (root 3 (g 2) * R * cos (arccos (2 * g 1 - 1)))
         \<and> Vector3_length (fst (randomInSphere R g)) = root 3 (g 2) * R
         \<and> Vector3_length (fst (randomInSphere R g)) < R
         \<and> Vector3_length (fst (randomInSphere R g)) ^ 3 = g 2 * R ^ 3"
proof -
  have w: "0 \<le> g 2" "g 2 < 1" using g by (simp_all add: uniform_draws_def)
  have r0: "0 \<le> root 3 (g 2) * R" using w R by simp
  have p: "fst (randomInSphere R g)
           = Vector3 (root 3 (g 2) * R * sin (arccos (2 * g 1 - 1)) * cos (2 * pi * g 0))
                     (root 3 (g 2) * R * sin (arccos (2 * g 1 - 1)) * sin (2 * pi * g 0))
                     (root 3 (g 2) * R * cos (arccos (2 * g 1 - 1)))"
    by (simp add: randomInSphere_def Math_random_def Let_def numeral_2_eq_2)
  have len: "Vector3_length (fst (randomInSphere R g)) = root 3 (g 2) * R"
    unfolding p Vector3_length_def vector3.sel by (rule sphere_length [OF r0])
  have "root 3 (g 2) < 1" using w by (metis real_root_lt_1_iff zero_less_numeral)
  then have lt: "root 3 (g 2) * R < R" using R by simp
  have "(root 3 (g 2) * R) ^ 3 = g 2 * R ^ 3"
    using w by (simp add: power_mult_distrib)
  with p len lt show ?thesis by simp
qed

theorem randomInSphere_uniform_by_volume_witness:
  "0 < (15::real) \<and> uniform_draws exampleDraws
   \<and> Vector3_length (fst (randomInSphere 15 exampleDraws)) = root 3 (exampleDraws 2) * 15
   \<and> Vector3_length (fst (randomInSphere 15 exampleDraws)) < 15
   \<and> Vector3_length (fst (randomInSphere 15 exampleDraws)) ^ 3 = exampleDraws 2 * 15 ^ 3"
proof -
  have R: "0 < (15::real)" by simp
  have g: "uniform_draws exampleDraws" by (simp add: uniform_draws_def exampleDraws_def)
  show ?thesis
    using R g randomInSphere_uniform_by_volume [OF R g] by blast
qed

lemma cone_radial:
  fixes r :: real
  assumes "0 \<le> r"
  shows "sqrt (r * cos t * (r * cos t) + r * sin t * (r * sin t)) = r"
proof -
  have alg: "\<And>st ct :: real. ct * ct + st * st = 1 \<Longrightarrow>
         r * ct * (r * ct) + r * st * (r * st) = r * r"
    by algebra
  have "r * cos t * (r * cos t) + r * sin t * (r * sin t) = r * r"
    by (rule alg) simp
  then show ?thesis using assms by simp
qed

text \<open>
  Claim C7. For every height \<open>h > 0\<close>, base radius \<open>r > 0\<close> and draws in \<open>[0, 1)\<close>,
  the point that \<open>randomInCone h r\<close> returns has \<open>0 \<le> y < h\<close>; its distance from the
  vertical axis is the square root of the third draw times the radius
  \<open>r * (1 - y / h)\<close> of the cross-section at its height, hence at most that radius.
\<close>

theorem randomInCone_inside:
  assumes h: "0 < h" and r: "0 < r" and g: "uniform_draws g"
  shows "0 \<le> vy (fst (randomInCone h r g)) \<and> vy (fst (randomInCone h r g)) < h
         \<and> sqrt (vx (fst (randomInCone h r g)) * vx (fst (randomInCone h r g))
                 + vz (fst (randomInCone h r g)) * vz (fst (randomInCone h r g)))
             = sqrt (g 2) * (r * (1 - vy (fst (randomInCone h r g)) / h))
         \<and> sqrt (vx (fst (randomInCone h r g)) * vx (fst (randomInCone h r g))
                 + vz (fst (randomInCone h r g)) * vz (fst (randomInCone h r g)))
             \<le> r * (1 - vy (fst (randomInCone h r g)) / h)"
proof -
  have u: "0 \<le> g 0" "g 0 < 1" and w: "0 \<le> g 2" "g 2 < 1"
    using g by (simp_all add: uniform_draws_def)
  let ?ra = "(1 - g 0 * h / h) * r"
  have p: "fst (randomInCone h r g)
           = Vector3 (sqrt (g 2) * ?ra * cos (g 1 * pi * 2)) (g 0 * h)
                     (sqrt (g 2) * ?ra * sin (g 1 * pi * 2))"
    by (simp add: randomInCone_def Math_random_def Let_def numeral_2_eq_2)
  have ra: "?ra = r * (1 - g 0)" using h by simp
  have ra0: "0 \<le> ?ra" using u r by (simp add: ra)
  have y: "0 \<le> g 0 * h" "g 0 * h < h" using u h by simp_all
  have rad: "sqrt (sqrt (g 2) * ?ra * cos (g 1 * pi * 2) * (sqrt (g 2) * ?ra * cos (g 1 * pi * 2))
                 + sqrt (g 2) * ?ra * sin (g 1 * pi * 2) * (sqrt (g 2) * ?ra * sin (g 1 * pi * 2)))
             = sqrt (g 2) * ?ra"
    by (rule cone_radial) (use w ra0 in simp)
  have "sqrt (g 2) \<le> 1" using w by simp
  moreover have "0 \<le> sqrt (g 2)" using w by simp
  ultimately have le: "sqrt (g 2) * ?ra \<le> ?ra" using ra0 by (simp add: mult_left_le_one_le)
  have q: "r * (1 - g 0 * h / h) = ?ra" by (simp add: mult.commute)
  show ?thesis
    unfolding p vector3.sel rad q using y le by blast
qed


theorem randomInCone_inside_witness:
  "0 < (8::real) \<and> 0 < (7 / 2 :: real) \<and> uniform_draws exampleDraws
   \<and> 0 \<le> vy (fst (randomInCone 8 (7 / 2) exampleDraws))
   \<and> vy (fst (randomInCone 8 (7 / 2) exampleDraws)) < 8
   \<and> sqrt (vx (fst (randomInCone 8 (7 / 2) exampleDraws)) * vx (fst (randomInCone 8 (7 / 2) exampleDraws))
           + vz (fst (randomInCone 8 (7 / 2) exampleDraws)) * vz (fst (randomInCone 8 (7 / 2) exampleDraws)))
       \<le> 7 / 2 * (1 - vy (fst (randomInCone 8 (7 / 2) exampleDraws)) / 8)"
proof -
  have h: "0 < (8::real)" and r: "0 < (7 / 2 :: real)" by simp_all
  have g: "uniform_draws exampleDraws" by (simp add: uniform_draws_def exampleDraws_def)
  show ?thesis
    using h r g randomInCone_inside [OF h r g] by blast
qed

subsection \<open>The frame loop: position\<close>

lemma needleData_loop_length: "length (fst (needleData_loop n g)) = n"
  by (induction n arbitrary: g) (simp_all add: case_prod_beta Let_def)

lemma ornamentData_loop_length: "length (fst (ornamentData_loop n g)) = n"
  by (induction n arbitrary: g) (simp_all add: case_prod_beta Let_def)

lemma dataset_lengths:
  "length (fst (dataset g)) = PARTICLE_COUNT" "length (snd (dataset g)) = ORNAMENT_COUNT"
  by (simp_all add: dataset_def needleData_def ornamentData_def case_prod_beta Let_def
        needleData_loop_length ornamentData_loop_length)

lemma mount_matrices:
  "needleMatrices (mount m0) = replicate PARTICLE_COUNT m0"
  "ornamentMatrices (mount m0) = replicate ORNAMENT_COUNT m0"
  "ornamentColors (mount m0) = replicate ORNAMENT_COUNT None"
  by (simp_all add: mount_def needleMatrices_def ornamentMatrices_def ornamentColors_def)

lemma counts_pos: "0 < PARTICLE_COUNT" "0 < ORNAMENT_COUNT"
  by (simp_all add: PARTICLE_COUNT_def ORNAMENT_COUNT_def)

text \<open>
  Claim C1, as the code has it. Each frame moves the position of an element, read back
  from its matrix in the instance buffer, linearly toward the target computed for the
  frame: a needle by the factor \<open>speed * 60 * dt\<close>, an ornament by the factor
  \<open>speed * 50 * dt\<close>, where \<open>speed\<close> is the element's own constant and \<open>dt\<close> the frame
  delta supplied by the caller.
\<close>

theorem position_blend:
  "(i < length (needleMatrices s) \<longrightarrow> i < length nData \<longrightarrow>
      obj_position (Matrix4_decompose (needleMatrices (useFrame sl nData oData mode t dt s) ! i))
      = (let p = obj_position (Matrix4_decompose (needleMatrices s ! i));
             T = needleTempVec (mode = TREE_SHAPE) t i (nData ! i);
             f = speed (nData ! i) * 60 * dt
         in Vector3 (vx p + (vx T - vx p) * f) (vy p + (vy T - vy p) * f)
              (vz p + (vz T - vz p) * f)))
   \<and> (j < length (ornamentMatrices s) \<longrightarrow> j < length oData \<longrightarrow>
      obj_position (Matrix4_decompose (ornamentMatrices (useFrame sl nData oData mode t dt s) ! j))
      = (let p = obj_position (Matrix4_decompose (ornamentMatrices s ! j));
             T = ornamentTempVec (mode = TREE_SHAPE) t j (oData ! j);
             f = speed (oData ! j) * 50 * dt
         in Vector3 (vx p + (vx T - vx p) * f) (vy p + (vy T - vy p) * f)
              (vz p + (vz T - vz p) * f)))"
  by (simp add: needleMatrices_useFrame_nth ornamentMatrices_useFrame_nth
        obj_position_decompose matrixPosition_updateMatrix needleTransform_def
        ornamentTransform_def Let_def Vector3_lerp_def)

theorem position_blend_witness:
  "0 < length (needleMatrices (mount Matrix4_identity))
   \<and> 0 < length (fst (dataset exampleDraws))
   \<and> 0 < length (ornamentMatrices (mount Matrix4_identity))
   \<and> 0 < length (snd (dataset exampleDraws))
   \<and> obj_position (Matrix4_decompose (ornamentMatrices
        (useFrame Quaternion_slerp (fst (dataset exampleDraws)) (snd (dataset exampleDraws))
           TREE_SHAPE 0 (1 / 60) (mount Matrix4_identity)) ! 0))
      = (let p = obj_position (Matrix4_decompose (ornamentMatrices (mount Matrix4_identity) ! 0));
             T = ornamentTempVec (TREE_SHAPE = TREE_SHAPE) 0 0 (snd (dataset exampleDraws) ! 0);
             f = speed (snd (dataset exampleDraws) ! 0) * 50 * (1 / 60)
         in Vector3 (vx p + (vx T - vx p) * f) (vy p + (vy T - vy p) * f)
              (vz p + (vz T - vz p) * f))"
proof -
  have h: "0 < length (needleMatrices (mount Matrix4_identity))"
    "0 < length (fst (dataset exampleDraws))"
    "0 < length (ornamentMatrices (mount Matrix4_identity))"
    "0 < length (snd (dataset exampleDraws))"
    by (simp_all add: mount_matrices dataset_lengths counts_pos)
  show ?thesis
    using h position_blend [of 0 "mount Matrix4_identity" "fst (dataset exampleDraws)"
        Quaternion_slerp "snd (dataset exampleDraws)" TREE_SHAPE 0 "1 / 60" 0]
    by blast
qed

text \<open>
  Claim C1 as stated gives the factor \<open>speed * 60 * dt\<close> to the ornaments too. An
  ornament at the origin with speed \<open>1/32\<close> and the arranged position \<open>(3.6, 0, 0)\<close> is
  moved by a frame of \<open>1/60\<close> s to \<open>x = 3/32\<close>; the factor of the claim would move it to
  \<open>x = 9/80\<close>.
\<close>

theorem ornament_factor_counterexample:
  "obj_position (ornamentTransform True 0 (1 / 60) 0 exampleOrnament exampleOrnamentMatrix)
     = Vector3 (3 / 32) 0 0
   \<and> Vector3_lerp (obj_position (Matrix4_decompose exampleOrnamentMatrix))
       (ornamentTempVec True 0 0 exampleOrnament) (speed exampleOrnament * 60 * (1 / 60))
     = Vector3 (9 / 80) 0 0
   \<and> obj_position (ornamentTransform True 0 (1 / 60) 0 exampleOrnament exampleOrnamentMatrix)
     \<noteq> Vector3_lerp (obj_position (Matrix4_decompose exampleOrnamentMatrix))
         (ornamentTempVec True 0 0 exampleOrnament) (speed exampleOrnament * 60 * (1 / 60))"
  by (simp add: ornamentTransform_def ornamentTempVec_def exampleOrnament_def
        exampleOrnamentMatrix_def Matrix4_decompose_def Vector3_lerp_def Let_def)


subsection \<open>The frame loop: orientation\<close>

lemma setFromEuler_vertical:
  "Quaternion_setFromEuler (Euler 0 a 0) = Quaternion 0 (sin (a / 2)) 0 (cos (a / 2))"
  by (simp add: Quaternion_setFromEuler_def)

lemma unitq_vertical: "unitq (Quaternion 0 (sin a) 0 (cos a))"
  by (simp add: unitq_def add.commute)

lemma Vector3_length_nonneg: "0 \<le> Vector3_length v"
  by (simp add: Vector3_length_def)

lemma Vector3_length_zero:
  "Vector3_length (Vector3 a b c) = 0 \<longleftrightarrow> a = 0 \<and> b = 0 \<and> c = 0"
proof -
  have "a * a + b * b + c * c = 0 \<longleftrightarrow> a = 0 \<and> b = 0 \<and> c = 0"
    by (metis add_nonneg_eq_0_iff mult_eq_0_iff zero_le_square add_nonneg_nonneg)
  then show ?thesis
    by (simp add: Vector3_length_def)
qed

lemma affine_updateMatrix: "affine (updateMatrix d)"
  by (simp add: affine_def updateMatrix_def Matrix4_compose_def Let_def)

lemma affine_determinant:
  assumes "affine m"
  shows "Matrix4_determinant m
         = - te8 m * te5 m * te2 m - te0 m * te9 m * te6 m + te0 m * te5 m * te10 m
           + te8 m * te1 m * te6 m - te4 m * te1 m * te10 m + te4 m * te9 m * te2 m"
  using assms by (simp add: affine_def Matrix4_determinant_def Let_def)

lemma decompose_scale_signs:
  assumes "affine m"
  shows "0 \<le> vy (obj_scale (Matrix4_decompose m))"
    and "0 \<le> vz (obj_scale (Matrix4_decompose m))"
    and "vx (obj_scale (Matrix4_decompose m)) < 0 \<longrightarrow>
         vy (obj_scale (Matrix4_decompose m)) * vz (obj_scale (Matrix4_decompose m)) \<noteq> 0"
proof -
  show "0 \<le> vy (obj_scale (Matrix4_decompose m))"
    by (simp add: Matrix4_decompose_def Let_def Vector3_length_nonneg)
  show "0 \<le> vz (obj_scale (Matrix4_decompose m))"
    by (simp add: Matrix4_decompose_def Let_def Vector3_length_nonneg)
  show "vx (obj_scale (Matrix4_decompose m)) < 0 \<longrightarrow>
        vy (obj_scale (Matrix4_decompose m)) * vz (obj_scale (Matrix4_decompose m)) \<noteq> 0"
  proof
    assume neg: "vx (obj_scale (Matrix4_decompose m)) < 0"
    have det: "Matrix4_determinant m < 0"
    proof (rule ccontr)
      assume "\<not> Matrix4_determinant m < 0"
      then have "vx (obj_scale (Matrix4_decompose m))
                 = Vector3_length (Vector3 (te0 m) (te1 m) (te2 m))"
        by (simp add: Matrix4_decompose_def Let_def)
      with neg Vector3_length_nonneg [of "Vector3 (te0 m) (te1 m) (te2 m)"] show False by simp
    qed
    have "Vector3_length (Vector3 (te4 m) (te5 m) (te6 m)) \<noteq> 0"
    proof
      assume "Vector3_length (Vector3 (te4 m) (te5 m) (te6 m)) = 0"
      then have "te4 m = 0" "te5 m = 0" "te6 m = 0" by (simp_all add: Vector3_length_zero)
      then have "Matrix4_determinant m = 0" by (simp add: affine_determinant [OF assms])
      with det show False by simp
    qed
    moreover have "Vector3_length (Vector3 (te8 m) (te9 m) (te10 m)) \<noteq> 0"
    proof
      assume "Vector3_length (Vector3 (te8 m) (te9 m) (te10 m)) = 0"
      then have "te8 m = 0" "te9 m = 0" "te10 m = 0" by (simp_all add: Vector3_length_zero)
      then have "Matrix4_determinant m = 0" by (simp add: affine_determinant [OF assms])
      with det show False by simp
    qed
    ultimately show "vy (obj_scale (Matrix4_decompose m)) * vz (obj_scale (Matrix4_decompose m)) \<noteq> 0"
      by (simp add: Matrix4_decompose_def Let_def)
  qed
qed

lemma decompose_diagonal:
  assumes "0 < a" "0 < b" "0 < c"
  shows "Matrix4_decompose (Matrix4 a 0 0 0  0 b 0 0  0 0 c 0  x y z 1)
         = \<lparr>obj_position = Vector3 x y z, obj_quaternion = Quaternion 0 0 0 1,
            obj_scale = Vector3 a b c\<rparr>"
proof -
  have "0 < a * b * c" using assms by simp
  then have "\<not> a * b * c < 0" by simp
  then show ?thesis
    using assms
    by (simp add: Matrix4_decompose_def Let_def Vector3_length_def Matrix4_determinant_def
        Quaternion_setFromRotationMatrix_def)
qed


lemma decomposable_identity: "decomposable Matrix4_identity"
  by (simp add: decomposable_def Matrix4_identity_def Vector3_length_def)

lemma affine_identity: "affine Matrix4_identity"
  by (simp add: affine_def Matrix4_identity_def)

text \<open>
  Claim C2, as the code has it. Each frame blends the orientation of a needle, read back
  from its matrix in the buffer, toward the target orientation with the library's
  spherical interpolation and the factor \<open>speed * 60 * dt\<close> of the position blend; the
  target is the needle's fixed arranged orientation in the mode \<open>TREE_SHAPE\<close> and, in the
  scattered mode, its scattered orientation turned about the vertical axis by the angle
  \<open>0.1 * t\<close>. The orientation of an ornament is not blended: in both modes the frame sets
  it to the rotation about the vertical axis by the angle \<open>0.5 * t + j\<close>, \<open>j\<close> being the
  ornament's index.
\<close>

theorem orientation_blend:
  "(i < length (needleMatrices s) \<longrightarrow> i < length nData \<longrightarrow>
    decomposable (needleMatrices s ! i) \<longrightarrow>
      needleMatrices (useFrame sl nData oData mode t dt s) ! i
      = Matrix4_compose
          (obj_position (needleTransform sl (mode = TREE_SHAPE) t dt i (nData ! i)
                           (needleMatrices s ! i)))
          (sl (obj_quaternion (Matrix4_decompose (needleMatrices s ! i)))
              (if mode = TREE_SHAPE then Quaternion_setFromEuler (treeRot (nData ! i))
               else Quaternion_multiply (Quaternion_setFromEuler (scatterRot (nData ! i)))
                      (Quaternion_setFromAxisAngle (Vector3 0 1 0) (t * 0.1)))
              (speed (nData ! i) * 60 * dt))
          (obj_scale (needleTransform sl (mode = TREE_SHAPE) t dt i (nData ! i)
                        (needleMatrices s ! i))))
   \<and> (j < length (ornamentMatrices s) \<longrightarrow> j < length oData \<longrightarrow>
      ornamentMatrices (useFrame sl nData oData mode t dt s) ! j
      = Matrix4_compose
          (obj_position (ornamentTransform (mode = TREE_SHAPE) t dt j (oData ! j)
                           (ornamentMatrices s ! j)))
          (Quaternion 0 (sin ((t * 0.5 + real j) / 2)) 0 (cos ((t * 0.5 + real j) / 2)))
          (obj_scale (ornamentTransform (mode = TREE_SHAPE) t dt j (oData ! j)
                        (ornamentMatrices s ! j))))"
  by (simp add: needleMatrices_useFrame_nth ornamentMatrices_useFrame_nth updateMatrix_def
        needleTransform_def ornamentTransform_def needleTargetQuat_def Let_def
        setFromEuler_vertical)

theorem orientation_blend_witness:
  "0 < length (needleMatrices (mount Matrix4_identity))
   \<and> 0 < length (fst (dataset exampleDraws))
   \<and> decomposable (needleMatrices (mount Matrix4_identity) ! 0)
   \<and> 0 < length (ornamentMatrices (mount Matrix4_identity))
   \<and> 0 < length (snd (dataset exampleDraws))
   \<and> needleMatrices
        (useFrame Quaternion_slerp (fst (dataset exampleDraws)) (snd (dataset exampleDraws))
           SCATTERED 1 (1 / 60) (mount Matrix4_identity)) ! 0
      = Matrix4_compose
          (obj_position (needleTransform Quaternion_slerp (SCATTERED = TREE_SHAPE) 1 (1 / 60) 0
                           (fst (dataset exampleDraws) ! 0)
                           (needleMatrices (mount Matrix4_identity) ! 0)))
          (Quaternion_slerp
              (obj_quaternion (Matrix4_decompose (needleMatrices (mount Matrix4_identity) ! 0)))
              (if SCATTERED = TREE_SHAPE
               then Quaternion_setFromEuler (treeRot (fst (dataset exampleDraws) ! 0))
               else Quaternion_multiply
                      (Quaternion_setFromEuler (scatterRot (fst (dataset exampleDraws) ! 0)))
                      (Quaternion_setFromAxisAngle (Vector3 0 1 0) (1 * 0.1)))
              (speed (fst (dataset exampleDraws) ! 0) * 60 * (1 / 60)))
          (obj_scale (needleTransform Quaternion_slerp (SCATTERED = TREE_SHAPE) 1 (1 / 60) 0
                        (fst (dataset exampleDraws) ! 0)
                        (needleMatrices (mount Matrix4_identity) ! 0)))"
proof -
  have h: "0 < length (needleMatrices (mount Matrix4_identity))"
    "0 < length (fst (dataset exampleDraws))"
    "decomposable (needleMatrices (mount Matrix4_identity) ! 0)"
    "0 < length (ornamentMatrices (mount Matrix4_identity))"
    "0 < length (snd (dataset exampleDraws))"
    by (simp_all add: mount_matrices dataset_lengths counts_pos decomposable_identity)
  show ?thesis
    using h orientation_blend [of 0 "mount Matrix4_identity" "fst (dataset exampleDraws)"
        Quaternion_slerp "snd (dataset exampleDraws)" SCATTERED 1 "1 / 60" 0]
    by blast
qed

text \<open>
  Claim C2 as stated has every element, ornaments included, blended from its current
  orientation toward a target that is fixed in the arranged mode. For an ornament whose
  orientation in the buffer is the identity, the arranged mode writes the identity at
  \<open>t = 0\<close> and the half turn \<open>(0, 1, 0, 0)\<close> at \<open>t = 2\<pi>\<close>, from the same buffer and with
  the same frame delta, and it writes the half turn even when the frame delta, and so
  the blend factor, is zero.
\<close>

theorem ornament_orientation_counterexample:
  "obj_quaternion (Matrix4_decompose exampleOrnamentMatrix) = Quaternion 0 0 0 1
   \<and> obj_quaternion (ornamentTransform True 0 (1 / 60) 0 exampleOrnament exampleOrnamentMatrix)
     = Quaternion 0 0 0 1
   \<and> obj_quaternion (ornamentTransform True (2 * pi) (1 / 60) 0 exampleOrnament
        exampleOrnamentMatrix)
     = Quaternion 0 1 0 0
   \<and> obj_quaternion (ornamentTransform True (2 * pi) 0 0 exampleOrnament exampleOrnamentMatrix)
     = Quaternion 0 1 0 0
   \<and> obj_quaternion (ornamentTransform True 0 (1 / 60) 0 exampleOrnament exampleOrnamentMatrix)
     \<noteq> obj_quaternion (ornamentTransform True (2 * pi) (1 / 60) 0 exampleOrnament
          exampleOrnamentMatrix)"
proof -
  have d: "Matrix4_decompose exampleOrnamentMatrix
           = \<lparr>obj_position = Vector3 0 0 0, obj_quaternion = Quaternion 0 0 0 1,
              obj_scale = Vector3 (1 / 4) (1 / 4) (1 / 4)\<rparr>"
    unfolding exampleOrnamentMatrix_def by (rule decompose_diagonal) simp_all
  show ?thesis
    by (simp add: d ornamentTransform_def Let_def setFromEuler_vertical)
qed

subsection \<open>The layout effect and sequences of frames\<close>

lemma layoutOrnament_dummy:
  "obj_position (snd (layoutOrnament i x md)) = obj_position (snd md)"
  "obj_quaternion (snd (layoutOrnament i x md)) = obj_quaternion (snd md)"
  by (cases md; simp add: layoutOrnament_def Let_def)+

lemma layoutNeedle_dummy:
  "obj_position (snd (layoutNeedle i x md)) = obj_position (snd md)"
  "obj_quaternion (snd (layoutNeedle i x md)) = obj_quaternion (snd md)"
  by (cases md; simp add: layoutNeedle_def Let_def)+

lemma layoutOrnament_color:
  "instanceColor (fst (layoutOrnament i x md)) = (instanceColor (fst md))[i := Some (color x)]"
  by (cases md) (simp add: layoutOrnament_def Let_def setColorAt_def setMatrixAt_def)

lemma layoutOrnament_matrix:
  "instanceMatrix (fst (layoutOrnament i x md))
   = (instanceMatrix (fst md))
       [i := Matrix4_compose (obj_position (snd md)) (obj_quaternion (snd md))
               (Vector3_setScalar (scale x))]"
  by (cases md) (simp add: layoutOrnament_def Let_def setColorAt_def setMatrixAt_def
        updateMatrix_def)

lemma layoutNeedle_matrix:
  "instanceMatrix (fst (layoutNeedle i x md))
   = (instanceMatrix (fst md))
       [i := Matrix4_compose (obj_position (snd md)) (obj_quaternion (snd md))
               (Vector3 0.1 0.4 0.1)]"
  by (cases md) (simp add: layoutNeedle_def Let_def setMatrixAt_def updateMatrix_def)

lemma forEach_layoutOrnament_dummy:
  "obj_position (snd (forEach layoutOrnament xs (mesh, d))) = obj_position d
   \<and> obj_quaternion (snd (forEach layoutOrnament xs (mesh, d))) = obj_quaternion d"
  using forEach_invariant
          [where I = "\<lambda>md. obj_position (snd md) = obj_position d
                          \<and> obj_quaternion (snd md) = obj_quaternion d"
             and body = layoutOrnament and md = "(mesh, d)" and xs = xs]
  by (simp add: layoutOrnament_dummy)

lemma forEach_layoutOrnament_color_nth:
  assumes "j < length (instanceColor mesh)"
  shows "instanceColor (fst (forEach layoutOrnament xs (mesh, d))) ! j
         = (if j < length xs then Some (color (xs ! j)) else instanceColor mesh ! j)"
  using forEach_nth
          [where I = "\<lambda>_. True" and body = layoutOrnament and proj = instanceColor
             and F = "\<lambda>i x c. Some (color x)" and md = "(mesh, d)" and j = j and xs = xs]
        assms
  by (simp add: layoutOrnament_color)

lemma forEach_layoutOrnament_color_length:
  "length (instanceColor (fst (forEach layoutOrnament xs (mesh, d)))) = length (instanceColor mesh)"
  using forEach_length
          [where I = "\<lambda>_. True" and body = layoutOrnament and proj = instanceColor
             and F = "\<lambda>i x c. Some (color x)" and md = "(mesh, d)" and xs = xs]
  by (simp add: layoutOrnament_color)

lemma forEach_layoutNeedle_nth:
  assumes "j < length (instanceMatrix mesh)"
  shows "instanceMatrix (fst (forEach layoutNeedle xs (mesh, d))) ! j
         = (if j < length xs
            then Matrix4_compose (obj_position d) (obj_quaternion d) (Vector3 0.1 0.4 0.1)
            else instanceMatrix mesh ! j)"
  using forEach_nth
          [where I = "\<lambda>md. obj_position (snd md) = obj_position d
                          \<and> obj_quaternion (snd md) = obj_quaternion d"
             and body = layoutNeedle and proj = instanceMatrix
             and F = "\<lambda>i x m. Matrix4_compose (obj_position d) (obj_quaternion d)
                                (Vector3 0.1 0.4 0.1)"
             and md = "(mesh, d)" and j = j and xs = xs]
        assms
  by (simp add: layoutNeedle_dummy layoutNeedle_matrix)

lemma forEach_layoutNeedle_length:
  "length (instanceMatrix (fst (forEach layoutNeedle xs (mesh, d)))) = length (instanceMatrix mesh)"
  using forEach_length
          [where I = "\<lambda>md. obj_position (snd md) = obj_position d
                          \<and> obj_quaternion (snd md) = obj_quaternion d"
             and body = layoutNeedle and proj = instanceMatrix
             and F = "\<lambda>i x m. Matrix4_compose (obj_position d) (obj_quaternion d)
                                (Vector3 0.1 0.4 0.1)"
             and md = "(mesh, d)" and xs = xs]
  by (simp add: layoutNeedle_dummy layoutNeedle_matrix)

lemma ornamentColors_useLayoutEffect_length:
  "length (ornamentColors (useLayoutEffect nData oData s)) = length (ornamentColors s)"
  by (cases "needlesMesh s"; cases "ornamentsMesh s")
     (simp_all add: useLayoutEffect_def ornamentColors_def Let_def case_prod_beta
        forEach_layoutOrnament_color_length)

lemma ornamentColors_useLayoutEffect_nth:
  assumes "j < length (ornamentColors s)"
  shows "ornamentColors (useLayoutEffect nData oData s) ! j
         = (if j < length oData then Some (color (oData ! j)) else ornamentColors s ! j)"
  using assms
  by (cases "needlesMesh s"; cases "ornamentsMesh s")
     (simp_all add: useLayoutEffect_def ornamentColors_def Let_def case_prod_beta
        forEach_layoutOrnament_color_nth)

lemma needleMatrices_useLayoutEffect_length:
  "length (needleMatrices (useLayoutEffect nData oData s)) = length (needleMatrices s)"
  by (cases "needlesMesh s"; cases "ornamentsMesh s")
     (simp_all add: useLayoutEffect_def needleMatrices_def Let_def case_prod_beta
        forEach_layoutNeedle_length)

lemma needleMatrices_useLayoutEffect_nth:
  assumes "i < length (needleMatrices s)"
  shows "needleMatrices (useLayoutEffect nData oData s) ! i
         = (if i < length nData
            then Matrix4_compose (obj_position (dummy s)) (obj_quaternion (dummy s))
                   (Vector3 0.1 0.4 0.1)
            else needleMatrices s ! i)"
  using assms
  by (cases "needlesMesh s"; cases "ornamentsMesh s")
     (simp_all add: useLayoutEffect_def needleMatrices_def Let_def case_prod_beta
        forEach_layoutNeedle_nth forEach_layoutOrnament_dummy)

lemma frames_Nil: "frames sl nData oData [] s = s"
  by (simp add: frames_def)

lemma frames_Cons:
  "frames sl nData oData (f # fs) s
   = frames sl nData oData fs
       (useFrame sl nData oData (frame_mode f) (frame_time f) (frame_delta f) s)"
  by (simp add: frames_def)

lemma frames_append:
  "frames sl nData oData (fs @ gs) s = frames sl nData oData gs (frames sl nData oData fs s)"
  by (simp add: frames_def)

lemma frames_snoc:
  "frames sl nData oData (fs @ [f]) s
   = useFrame sl nData oData (frame_mode f) (frame_time f) (frame_delta f)
       (frames sl nData oData fs s)"
  by (simp add: frames_def)

lemma ornamentColors_frames:
  "ornamentColors (frames sl nData oData fs s) = ornamentColors s"
  by (induction fs arbitrary: s) (simp_all add: frames_Nil frames_Cons ornamentColors_useFrame)

lemma needleMatrices_frames_length:
  "length (needleMatrices (frames sl nData oData fs s)) = length (needleMatrices s)"
  by (induction fs arbitrary: s)
     (simp_all add: frames_Nil frames_Cons needleMatrices_useFrame_length)

lemma ornamentMatrices_frames_length:
  "length (ornamentMatrices (frames sl nData oData fs s)) = length (ornamentMatrices s)"
  by (induction fs arbitrary: s)
     (simp_all add: frames_Nil frames_Cons ornamentMatrices_useFrame_length)


subsection \<open>The dataset and the colour buffer\<close>

lemma uniform_draws_shift: "uniform_draws g \<Longrightarrow> uniform_draws (\<lambda>n. g (n + k))"
  by (simp add: uniform_draws_def)

lemma snd_randomInSphere: "snd (randomInSphere R g) = (\<lambda>n. g (n + 3))"
  by (simp add: randomInSphere_def Math_random_def Let_def eval_nat_numeral)

lemma snd_randomInCone: "snd (randomInCone h r g) = (\<lambda>n. g (n + 3))"
  by (simp add: randomInCone_def Math_random_def Let_def eval_nat_numeral)

lemma snd_randomOnConeSurface: "snd (randomOnConeSurface h r g) = (\<lambda>n. g (n + 2))"
  by (simp add: randomOnConeSurface_def Math_random_def Let_def eval_nat_numeral)

lemma snd_needleDatum: "snd (needleDatum g) = (\<lambda>n. g (n + 13))"
  by (simp add: needleDatum_def case_prod_beta Let_def snd_randomInSphere snd_randomInCone
        Math_random_def eval_nat_numeral)

lemma snd_ornamentDatum: "snd (ornamentDatum g) = (\<lambda>n. g (n + 8))"
  by (simp add: ornamentDatum_def case_prod_beta Let_def snd_randomInSphere
        snd_randomOnConeSurface Math_random_def eval_nat_numeral)

lemma color_ornamentDatum:
  "color (fst (ornamentDatum g)) = colors ! nat \<lfloor>g 5 * real (length colors)\<rfloor>"
  by (simp add: ornamentDatum_def case_prod_beta Let_def snd_randomInSphere
        snd_randomOnConeSurface Math_random_def eval_nat_numeral)

lemma speed_needleDatum: "speed (fst (needleDatum g)) = 0.02 + g 12 * 0.04"
  by (simp add: needleDatum_def case_prod_beta Let_def snd_randomInSphere snd_randomInCone
        Math_random_def eval_nat_numeral)

lemma palette: "length colors = 3" "distinct colors"
  by (simp_all add: colors_def)

lemma palette_index:
  assumes "0 \<le> a" "a < 1"
  shows "nat \<lfloor>a * real (length colors)\<rfloor> < length colors"
proof -
  have "a * 3 < 3" using assms by simp
  then have "\<lfloor>a * 3\<rfloor> < 3" by (simp add: floor_less_iff)
  moreover have "0 \<le> \<lfloor>a * 3\<rfloor>" using assms by simp
  ultimately have "nat \<lfloor>a * 3\<rfloor> < 3" by linarith
  then show ?thesis by (simp add: palette)
qed

lemma color_ornamentDatum_palette:
  assumes "uniform_draws g"
  shows "color (fst (ornamentDatum g)) \<in> set colors"
  unfolding color_ornamentDatum
  by (rule nth_mem, rule palette_index) (use assms in \<open>simp_all add: uniform_draws_def\<close>)

lemma uniform_draws_needleData_loop:
  "uniform_draws g \<Longrightarrow> uniform_draws (snd (needleData_loop n g))"
proof (induction n arbitrary: g)
  case 0
  then show ?case by simp
next
  case (Suc n)
  have "uniform_draws (snd (needleDatum g))"
    unfolding snd_needleDatum using Suc.prems by (rule uniform_draws_shift)
  then have "uniform_draws (snd (needleData_loop n (snd (needleDatum g))))" by (rule Suc.IH)
  then show ?case by (simp add: case_prod_beta Let_def)
qed

lemma ornamentData_loop_palette:
  "uniform_draws g \<Longrightarrow> d \<in> set (fst (ornamentData_loop n g)) \<Longrightarrow> color d \<in> set colors"
proof (induction n arbitrary: g)
  case 0
  then show ?case by simp
next
  case (Suc n)
  have u: "uniform_draws (snd (ornamentDatum g))"
    unfolding snd_ornamentDatum using Suc.prems(1) by (rule uniform_draws_shift)
  from Suc.prems(2) have "d = fst (ornamentDatum g)
      \<or> d \<in> set (fst (ornamentData_loop n (snd (ornamentDatum g))))"
    by (simp add: case_prod_beta Let_def)
  then show ?case
    using color_ornamentDatum_palette [OF Suc.prems(1)] Suc.IH [OF u] by blast
qed

lemma dataset_palette:
  assumes "uniform_draws g" and "j < length (snd (dataset g))"
  shows "color (snd (dataset g) ! j) \<in> set colors"
proof -
  have "snd (dataset g) = fst (ornamentData_loop ORNAMENT_COUNT (snd (needleData_loop PARTICLE_COUNT g)))"
    by (simp add: dataset_def needleData_def ornamentData_def case_prod_beta Let_def)
  moreover have "uniform_draws (snd (needleData_loop PARTICLE_COUNT g))"
    using assms(1) by (rule uniform_draws_needleData_loop)
  ultimately show ?thesis
    using assms(2) ornamentData_loop_palette nth_mem by metis
qed

text \<open>
  Claim C8. The palette has exactly three colours, and the colour that the dataset
  builder gives an ornament is one of them. The layout effect writes that colour into the
  ornament's slot of the colour buffer; no frame writes the colour buffer, so after any
  sequence of frames, in any modes, the buffer is what the layout effect left.
\<close>

theorem ornament_colors_immutable:
  assumes "uniform_draws g" and "j < length (snd (dataset g))"
    and "j < length (ornamentColors s)"
  shows "length colors = 3 \<and> distinct colors
     \<and> color (snd (dataset g) ! j) \<in> set colors
     \<and> ornamentColors (useLayoutEffect (fst (dataset g)) (snd (dataset g)) s) ! j
         = Some (color (snd (dataset g) ! j))
     \<and> ornamentColors (frames sl (fst (dataset g)) (snd (dataset g)) fs
           (useLayoutEffect (fst (dataset g)) (snd (dataset g)) s))
         = ornamentColors (useLayoutEffect (fst (dataset g)) (snd (dataset g)) s)
     \<and> ornamentColors (useFrame sl nData oData mode t dt s') = ornamentColors s'"
  using assms
  by (simp add: palette dataset_palette ornamentColors_useLayoutEffect_nth
        ornamentColors_frames ornamentColors_useFrame)

theorem ornament_colors_immutable_witness:
  "uniform_draws exampleDraws \<and> 0 < length (snd (dataset exampleDraws))
   \<and> 0 < length (ornamentColors (mount Matrix4_identity))
   \<and> color (snd (dataset exampleDraws) ! 0) \<in> set colors
   \<and> ornamentColors (frames Quaternion_slerp (fst (dataset exampleDraws))
         (snd (dataset exampleDraws))
         (framesAt60 SCATTERED 0 500 @ framesAt60 TREE_SHAPE (25 / 3) 500)
         (useLayoutEffect (fst (dataset exampleDraws)) (snd (dataset exampleDraws))
            (mount Matrix4_identity)))
       = ornamentColors (useLayoutEffect (fst (dataset exampleDraws))
           (snd (dataset exampleDraws)) (mount Matrix4_identity))"
proof -
  have h: "uniform_draws exampleDraws" "0 < length (snd (dataset exampleDraws))"
    "0 < length (ornamentColors (mount Matrix4_identity))"
    by (simp_all add: uniform_draws_exampleDraws mount_matrices dataset_lengths counts_pos)
  show ?thesis
    using h ornament_colors_immutable [OF h, of Quaternion_slerp
        "framesAt60 SCATTERED 0 500 @ framesAt60 TREE_SHAPE (25 / 3) 500"]
    by blast
qed

subsection \<open>Determinism of the frame loop\<close>

text \<open>
  Claim C9. The frame loop takes no random draws: \<open>useFrame\<close> has no stream of draws among
  its arguments. The matrices it writes are determined by the matrices in the two
  buffers, the mode, the elapsed time, the frame delta and, for each index, the static
  data of the element at that index: two scenes with the same buffers get the same
  buffers, whatever else differs between them (the scratch object, the colours, the
  star), and each new matrix is a function of the old matrix at the same index.
\<close>

theorem useFrame_deterministic:
  assumes "needleMatrices s1 = needleMatrices s2" and "ornamentMatrices s1 = ornamentMatrices s2"
  shows "needleMatrices (useFrame sl nData oData mode t dt s1)
           = needleMatrices (useFrame sl nData oData mode t dt s2)
       \<and> ornamentMatrices (useFrame sl nData oData mode t dt s1)
           = ornamentMatrices (useFrame sl nData oData mode t dt s2)
       \<and> (\<forall>i. i < length (needleMatrices s1) \<and> i < length nData \<longrightarrow>
            needleMatrices (useFrame sl nData oData mode t dt s1) ! i
            = updateMatrix (needleTransform sl (mode = TREE_SHAPE) t dt i (nData ! i)
                              (needleMatrices s1 ! i)))
       \<and> (\<forall>j. j < length (ornamentMatrices s1) \<and> j < length oData \<longrightarrow>
            ornamentMatrices (useFrame sl nData oData mode t dt s1) ! j
            = updateMatrix (ornamentTransform (mode = TREE_SHAPE) t dt j (oData ! j)
                              (ornamentMatrices s1 ! j)))"
proof -
  have n: "needleMatrices (useFrame sl nData oData mode t dt s1)
           = needleMatrices (useFrame sl nData oData mode t dt s2)"
    by (rule nth_equalityI)
       (simp_all add: needleMatrices_useFrame_length needleMatrices_useFrame_nth assms)
  have o: "ornamentMatrices (useFrame sl nData oData mode t dt s1)
           = ornamentMatrices (useFrame sl nData oData mode t dt s2)"
    by (rule nth_equalityI)
       (simp_all add: ornamentMatrices_useFrame_length ornamentMatrices_useFrame_nth assms)
  have n1: "\<forall>i. i < length (needleMatrices s1) \<and> i < length nData \<longrightarrow>
            needleMatrices (useFrame sl nData oData mode t dt s1) ! i
            = updateMatrix (needleTransform sl (mode = TREE_SHAPE) t dt i (nData ! i)
                              (needleMatrices s1 ! i))"
    by (simp add: needleMatrices_useFrame_nth)
  have o1: "\<forall>j. j < length (ornamentMatrices s1) \<and> j < length oData \<longrightarrow>
            ornamentMatrices (useFrame sl nData oData mode t dt s1) ! j
            = updateMatrix (ornamentTransform (mode = TREE_SHAPE) t dt j (oData ! j)
                              (ornamentMatrices s1 ! j))"
    by (simp add: ornamentMatrices_useFrame_nth)
  show ?thesis
    using n o n1 o1 by blast
qed


theorem useFrame_deterministic_witness:
  "needleMatrices (mount Matrix4_identity)
     = needleMatrices (mount Matrix4_identity\<lparr>dummy := Matrix4_decompose exampleOrnamentMatrix,
                                              starMesh := None\<rparr>)
   \<and> ornamentMatrices (mount Matrix4_identity)
     = ornamentMatrices (mount Matrix4_identity\<lparr>dummy := Matrix4_decompose exampleOrnamentMatrix,
                                                starMesh := None\<rparr>)
   \<and> needleMatrices (useFrame Quaternion_slerp (fst (dataset exampleDraws))
        (snd (dataset exampleDraws)) SCATTERED 1 (1 / 60) (mount Matrix4_identity))
     = needleMatrices (useFrame Quaternion_slerp (fst (dataset exampleDraws))
        (snd (dataset exampleDraws)) SCATTERED 1 (1 / 60)
        (mount Matrix4_identity\<lparr>dummy := Matrix4_decompose exampleOrnamentMatrix,
                                 starMesh := None\<rparr>))
   \<and> ornamentMatrices (useFrame Quaternion_slerp (fst (dataset exampleDraws))
        (snd (dataset exampleDraws)) SCATTERED 1 (1 / 60) (mount Matrix4_identity))
     = ornamentMatrices (useFrame Quaternion_slerp (fst (dataset exampleDraws))
        (snd (dataset exampleDraws)) SCATTERED 1 (1 / 60)
        (mount Matrix4_identity\<lparr>dummy := Matrix4_decompose exampleOrnamentMatrix,
                                 starMesh := None\<rparr>))"
proof -
  have h: "needleMatrices (mount Matrix4_identity)
     = needleMatrices (mount Matrix4_identity\<lparr>dummy := Matrix4_decompose exampleOrnamentMatrix,
                                              starMesh := None\<rparr>)"
    "ornamentMatrices (mount Matrix4_identity)
     = ornamentMatrices (mount Matrix4_identity\<lparr>dummy := Matrix4_decompose exampleOrnamentMatrix,
                                                starMesh := None\<rparr>)"
    by (simp_all add: needleMatrices_def ornamentMatrices_def)
  show ?thesis
    using h useFrame_deterministic [OF h, of Quaternion_slerp "fst (dataset exampleDraws)"
        "snd (dataset exampleDraws)" SCATTERED 1 "1 / 60"]
    by blast
qed

subsection \<open>The scale of a needle after the layout effect\<close>

text \<open>
  Claim C10. The layout effect composes the matrix of every needle with the scale
  \<open>(0.1, 0.4, 0.1)\<close>. After the layout effect and any sequence of frames ending with the
  frame \<open>f\<close>, the first frame included, the matrix of every needle is composed with the
  uniform scale \<open>(c, c, c)\<close>, \<open>c\<close> being \<open>1\<close> if the mode of \<open>f\<close> is \<open>TREE_SHAPE\<close> and
  \<open>1/2\<close> otherwise, which is not the scale of the layout effect.
\<close>

theorem needle_scale_after_setup:
  assumes "i < length nData" and "i < length (needleMatrices s)"
  shows "needleMatrices (useLayoutEffect nData oData s) ! i
           = Matrix4_compose (obj_position (dummy s)) (obj_quaternion (dummy s))
               (Vector3 0.1 0.4 0.1)
       \<and> (unitq (obj_quaternion (dummy s)) \<longrightarrow>
            obj_scale (Matrix4_decompose (needleMatrices (useLayoutEffect nData oData s) ! i))
            = Vector3 0.1 0.4 0.1)
       \<and> (let s1 = frames sl nData oData fs (useLayoutEffect nData oData s);
               T = needleTransform sl (frame_mode f = TREE_SHAPE) (frame_time f) (frame_delta f)
                     i (nData ! i) (needleMatrices s1 ! i);
               c = (if frame_mode f = TREE_SHAPE then 1 else 1 / 2);
               M = needleMatrices
                     (frames sl nData oData (fs @ [f]) (useLayoutEffect nData oData s)) ! i
           in M = Matrix4_compose (obj_position T) (obj_quaternion T) (Vector3 c c c)
              \<and> Vector3 c c c \<noteq> Vector3 0.1 0.4 0.1
              \<and> (unitq (obj_quaternion T) \<longrightarrow>
                   obj_scale (Matrix4_decompose M) = Vector3 c c c))"
proof -
  have lay: "needleMatrices (useLayoutEffect nData oData s) ! i
           = Matrix4_compose (obj_position (dummy s)) (obj_quaternion (dummy s))
               (Vector3 0.1 0.4 0.1)"
    using assms by (simp add: needleMatrices_useLayoutEffect_nth)
  have lay_scale: "obj_scale (Matrix4_decompose (Matrix4_compose p q (Vector3 (1 / 10) (2 / 5) (1 / 10))))
                     = Vector3 (1 / 10) (2 / 5) (1 / 10)" if "unitq q" for p q
    by (rule decompose_compose_scale) (use that in simp_all)
  have frame_scale: "obj_scale (Matrix4_decompose (Matrix4_compose p q (Vector3 c c c)))
                     = Vector3 c c c" if "unitq q" "c = 1 \<or> c = 1 / 2" for p q and c :: real
    by (rule decompose_compose_scale) (use that in auto)
  have len: "i < length (needleMatrices (frames sl nData oData fs (useLayoutEffect nData oData s)))"
    using assms by (simp add: needleMatrices_frames_length needleMatrices_useLayoutEffect_length)
  have step: "needleMatrices (frames sl nData oData (fs @ [f]) (useLayoutEffect nData oData s)) ! i
        = updateMatrix (needleTransform sl (frame_mode f = TREE_SHAPE) (frame_time f)
             (frame_delta f) i (nData ! i)
             (needleMatrices (frames sl nData oData fs (useLayoutEffect nData oData s)) ! i))"
    using assms(1) len by (simp add: frames_snoc needleMatrices_useFrame_nth)
  show ?thesis
    unfolding Let_def step lay
    by (simp add: lay_scale frame_scale updateMatrix_def needleTransform_def Let_def
        Vector3_setScalar_def)
qed

theorem needle_scale_after_setup_witness:
  "0 < length (fst (dataset exampleDraws))
   \<and> 0 < length (needleMatrices (mount Matrix4_identity))
   \<and> needleMatrices (useLayoutEffect (fst (dataset exampleDraws)) (snd (dataset exampleDraws))
        (mount Matrix4_identity)) ! 0
       = Matrix4_compose (obj_position (dummy (mount Matrix4_identity)))
           (obj_quaternion (dummy (mount Matrix4_identity))) (Vector3 0.1 0.4 0.1)
   \<and> needleMatrices
        (frames Quaternion_slerp (fst (dataset exampleDraws)) (snd (dataset exampleDraws))
           ([] @ [Frame SCATTERED (1 / 60) (1 / 60)])
           (useLayoutEffect (fst (dataset exampleDraws)) (snd (dataset exampleDraws))
              (mount Matrix4_identity))) ! 0
       = Matrix4_compose
           (obj_position (needleTransform Quaternion_slerp False (1 / 60) (1 / 60) 0
              (fst (dataset exampleDraws) ! 0)
              (needleMatrices (frames Quaternion_slerp (fst (dataset exampleDraws))
                 (snd (dataset exampleDraws)) []
                 (useLayoutEffect (fst (dataset exampleDraws)) (snd (dataset exampleDraws))
                    (mount Matrix4_identity))) ! 0)))
           (obj_quaternion (needleTransform Quaternion_slerp False (1 / 60) (1 / 60) 0
              (fst (dataset exampleDraws) ! 0)
              (needleMatrices (frames Quaternion_slerp (fst (dataset exampleDraws))
                 (snd (dataset exampleDraws)) []
                 (useLayoutEffect (fst (dataset exampleDraws)) (snd (dataset exampleDraws))
                    (mount Matrix4_identity))) ! 0)))
           (Vector3 (1 / 2) (1 / 2) (1 / 2))"
proof -
  have h: "0 < length (fst (dataset exampleDraws))"
    "0 < length (needleMatrices (mount Matrix4_identity))"
    by (simp_all add: mount_matrices dataset_lengths counts_pos)
  have m: "(frame_mode (Frame SCATTERED (1 / 60) (1 / 60)) = TREE_SHAPE) = False"
    "(if False then 1 else 1 / 2) = (1 / 2 :: real)"
    "frame_time (Frame SCATTERED (1 / 60) (1 / 60)) = 1 / 60"
    "frame_delta (Frame SCATTERED (1 / 60) (1 / 60)) = 1 / 60"
    by simp_all
  show ?thesis
    using h needle_scale_after_setup [OF h, of "snd (dataset exampleDraws)" Quaternion_slerp "[]"
        "Frame SCATTERED (1 / 60) (1 / 60)"]
    unfolding Let_def m by blast
qed

subsection \<open>The cone samplers and a zero height\<close>

lemma num_mul_NaN_right: "num_mul a NaN = NaN"
  by (cases a) simp_all

lemma num_add_NaN_right: "num_add a NaN = NaN"
  by (cases a) simp_all

text \<open>
  Claim C5 as stated has a zero height rejected with an error and no sampler returning
  a coordinate that is not a number. The samplers check nothing: with the height \<open>0\<close> and
  the base radius of the tree, both cone samplers return \<open>y = 0\<close> and \<open>x\<close> and \<open>z\<close> that are
  not numbers, \<open>0 / 0\<close> being the quotient \<open>y / height\<close>.
\<close>

theorem cone_samplers_zero_height_counterexample:
  "fst (randomInCone_num (Finite 0) (Finite (7 / 2)) exampleDraws) = Vector3n NaN (Finite 0) NaN
   \<and> fst (randomOnConeSurface_num (Finite 0) (Finite (7 / 2)) exampleDraws)
     = Vector3n NaN (Finite 0) NaN
   \<and> isNaN (nx (fst (randomInCone_num (Finite 0) (Finite (7 / 2)) exampleDraws)))"
  by (simp add: randomInCone_num_def randomOnConeSurface_num_def Math_random_def Let_def
        num_sub_def num_mul_NaN_right)

text \<open>
  Claim C5, as the code has it. The cone samplers validate nothing and return a vector
  for every input. With the height \<open>0\<close> both return \<open>y = 0\<close> and \<open>x\<close> and \<open>z\<close> that are not
  numbers, whatever the radius and the draws. With a finite height other than zero, a
  finite radius (zero included) and draws in \<open>[0, 1)\<close> every coordinate is finite, and is
  the coordinate of the samplers over the reals.
\<close>

theorem cone_samplers_division:
  "fst (randomInCone_num (Finite 0) radiusBase g) = Vector3n NaN (Finite 0) NaN
   \<and> fst (randomOnConeSurface_num (Finite 0) radiusBase g) = Vector3n NaN (Finite 0) NaN
   \<and> (h \<noteq> 0 \<longrightarrow> uniform_draws g \<longrightarrow>
        fst (randomInCone_num (Finite h) (Finite r) g) = finite_vector (fst (randomInCone h r g))
        \<and> fst (randomOnConeSurface_num (Finite h) (Finite r) g)
          = finite_vector (fst (randomOnConeSurface h r g)))"
proof -
  have zero: "fst (randomInCone_num (Finite 0) radiusBase g) = Vector3n NaN (Finite 0) NaN"
    "fst (randomOnConeSurface_num (Finite 0) radiusBase g) = Vector3n NaN (Finite 0) NaN"
    by (simp_all add: randomInCone_num_def randomOnConeSurface_num_def Math_random_def Let_def
        num_sub_def num_mul_NaN_right)
  have fin: "fst (randomInCone_num (Finite h) (Finite r) g) = finite_vector (fst (randomInCone h r g))
        \<and> fst (randomOnConeSurface_num (Finite h) (Finite r) g)
          = finite_vector (fst (randomOnConeSurface h r g))"
    if "h \<noteq> 0" "uniform_draws g"
  proof -
    have "\<not> g (Suc (Suc 0)) < 0" using that(2) by (simp add: uniform_draws_def not_less)
    then show ?thesis
      using that(1)
      by (simp add: randomInCone_num_def randomOnConeSurface_num_def randomInCone_def
          randomOnConeSurface_def Math_random_def Let_def num_sub_def finite_vector_def)
  qed
  show ?thesis using zero fin by blast
qed

theorem cone_samplers_division_witness:
  "(8::real) \<noteq> 0 \<and> uniform_draws exampleDraws
   \<and> fst (randomInCone_num (Finite 8) (Finite (7 / 2)) exampleDraws)
     = finite_vector (fst (randomInCone 8 (7 / 2) exampleDraws))
   \<and> fst (randomOnConeSurface_num (Finite 8) (Finite (7 / 2)) exampleDraws)
     = finite_vector (fst (randomOnConeSurface 8 (7 / 2) exampleDraws))"
proof -
  have h: "(8::real) \<noteq> 0" by simp
  have g: "uniform_draws exampleDraws" by (simp add: uniform_draws_def exampleDraws_def)
  show ?thesis
    using h g cone_samplers_division [of "Finite (7 / 2)" exampleDraws 8 "7 / 2"] by blast
qed


subsection \<open>Convergence after a change of mode\<close>

lemma needlePosition_useFrame:
  assumes "i < length (needleMatrices s)" and "i < length nData"
  shows "matrixPosition (needleMatrices (useFrame sl nData oData mode t dt s) ! i)
         = Vector3_lerp (matrixPosition (needleMatrices s ! i))
             (needleTempVec (mode = TREE_SHAPE) t i (nData ! i)) (speed (nData ! i) * 60 * dt)"
  using assms
  by (simp add: needleMatrices_useFrame_nth matrixPosition_updateMatrix needleTransform_def
        Let_def obj_position_decompose)

lemma distanceTo_lerp:
  "Vector3_distanceTo (Vector3_lerp p T a) T = \<bar>1 - a\<bar> * Vector3_distanceTo p T"
proof -
  have "(vx p + (vx T - vx p) * a - vx T) * (vx p + (vx T - vx p) * a - vx T)
        + (vy p + (vy T - vy p) * a - vy T) * (vy p + (vy T - vy p) * a - vy T)
        + (vz p + (vz T - vz p) * a - vz T) * (vz p + (vz T - vz p) * a - vz T)
        = (1 - a)\<^sup>2 * ((vx p - vx T) * (vx p - vx T) + (vy p - vy T) * (vy p - vy T)
                        + (vz p - vz T) * (vz p - vz T))"
    by (simp add: power2_eq_square algebra_simps)
  then show ?thesis
    by (simp add: Vector3_distanceTo_def Vector3_lerp_def real_sqrt_mult)
qed

lemma arranged_distance:
  assumes "i < length (needleMatrices s)" and "i < length nData"
    and "\<forall>f \<in> set gs. frame_mode f = TREE_SHAPE"
  shows "Vector3_distanceTo (matrixPosition (needleMatrices (frames sl nData oData gs s) ! i))
           (treePos (nData ! i))
         = (\<Prod>f\<leftarrow>gs. \<bar>1 - speed (nData ! i) * 60 * frame_delta f\<bar>)
           * Vector3_distanceTo (matrixPosition (needleMatrices s ! i)) (treePos (nData ! i))"
  using assms(1,3)
proof (induction gs arbitrary: s)
  case Nil
  then show ?case by (simp add: frames_Nil)
next
  case (Cons g gs)
  let ?s1 = "useFrame sl nData oData (frame_mode g) (frame_time g) (frame_delta g) s"
  have len: "i < length (needleMatrices ?s1)"
    using Cons.prems(1) by (simp add: needleMatrices_useFrame_length)
  have mode: "frame_mode g = TREE_SHAPE" and rest: "\<forall>f \<in> set gs. frame_mode f = TREE_SHAPE"
    using Cons.prems(2) by simp_all
  have one: "Vector3_distanceTo (matrixPosition (needleMatrices ?s1 ! i)) (treePos (nData ! i))
             = \<bar>1 - speed (nData ! i) * 60 * frame_delta g\<bar>
               * Vector3_distanceTo (matrixPosition (needleMatrices s ! i)) (treePos (nData ! i))"
    using needlePosition_useFrame [OF Cons.prems(1) assms(2), of sl oData "frame_mode g"
        "frame_time g" "frame_delta g"]
    by (simp add: mode needleTempVec_def distanceTo_lerp)
  show ?case
    using Cons.IH [OF len rest] by (simp add: frames_Cons one)
qed

lemma decay_bound:
  fixes k :: real
  assumes "\<forall>f \<in> set gs. 0 \<le> k * frame_delta f \<and> k * frame_delta f \<le> 1"
  shows "0 \<le> (\<Prod>f\<leftarrow>gs. \<bar>1 - k * frame_delta f\<bar>)
         \<and> (\<Prod>f\<leftarrow>gs. \<bar>1 - k * frame_delta f\<bar>) \<le> exp (- (k * sum_list (map frame_delta gs)))"
  using assms
proof (induction gs)
  case Nil
  then show ?case by simp
next
  case (Cons g gs)
  let ?a = "k * frame_delta g"
  let ?p = "\<Prod>f\<leftarrow>gs. \<bar>1 - k * frame_delta f\<bar>"
  have a: "0 \<le> ?a" "?a \<le> 1" using Cons.prems by simp_all
  have ih: "0 \<le> ?p" "?p \<le> exp (- (k * sum_list (map frame_delta gs)))"
    using Cons.IH Cons.prems by simp_all
  have "1 + (- ?a) \<le> exp (- ?a)" by (rule exp_ge_add_one_self)
  then have e: "\<bar>1 - ?a\<bar> \<le> exp (- ?a)" using a by simp
  have "\<bar>1 - ?a\<bar> * ?p \<le> exp (- ?a) * exp (- (k * sum_list (map frame_delta gs)))"
    by (rule mult_mono) (use e ih in simp_all)
  also have "\<dots> = exp (- (k * sum_list (map frame_delta (g # gs))))"
    by (simp add: exp_add [symmetric] algebra_simps)
  finally show ?case using ih(1) by simp
qed

lemma exp_bound: "exp (- (18 / 5) :: real) < 3 / 100"
proof -
  have q: "1 + (3 / 10) + (3 / 10)\<^sup>2 / 2 \<le> exp (3 / 10 :: real)"
    by (rule exp_lower_Taylor_quadratic) simp
  have n: "(100 :: real) < (269 / 200) ^ 12 * 3" by (simp add: power_divide)
  have "(269 / 200 :: real) ^ 12 \<le> exp (3 / 10) ^ 12"
    by (rule power_mono) (use q in \<open>simp_all add: power2_eq_square\<close>)
  also have "\<dots> = exp (18 / 5 :: real)"
    by (simp add: exp_of_nat_mult [symmetric])
  finally have "(100 / 3 :: real) < exp (18 / 5)" using n by simp
  then have "1 / exp (18 / 5 :: real) < 1 / (100 / 3)"
    by (rule divide_strict_left_mono) simp_all
  then show ?thesis by (simp add: exp_minus inverse_eq_divide)
qed


lemma blend_within:
  fixes y c a w :: real
  assumes "0 \<le> a" "a \<le> 1" "\<bar>y - c\<bar> \<le> 1 / 2" "\<bar>w\<bar> \<le> 1"
  shows "\<bar>y + (c + w * (1 / 2) - y) * a - c\<bar> \<le> 1 / 2"
proof -
  have eq: "y + (c + w * (1 / 2) - y) * a - c = (1 - a) * (y - c) + a * (w / 2)"
    by (simp add: algebra_simps)
  have "(1 - a) * \<bar>y - c\<bar> \<le> (1 - a) * (1 / 2)"
    by (rule mult_left_mono [OF assms(3)]) (use assms(2) in simp)
  then have "\<bar>(1 - a) * (y - c)\<bar> \<le> (1 - a) * (1 / 2)"
    using assms(2) by (simp add: abs_mult)
  moreover have "a * \<bar>w / 2\<bar> \<le> a * (1 / 2)"
    by (rule mult_left_mono) (use assms(1,4) in simp_all)
  then have "\<bar>a * (w / 2)\<bar> \<le> a * (1 / 2)"
    using assms(1) by (simp add: abs_mult)
  ultimately have "\<bar>(1 - a) * (y - c) + a * (w / 2)\<bar> \<le> (1 - a) * (1 / 2) + a * (1 / 2)"
    by linarith
  moreover have "(1 - a) * (1 / 2) + a * (1 / 2) = 1 / 2" by (simp add: field_simps)
  ultimately show ?thesis unfolding eq by linarith
qed

lemma scatter_height_bound:
  assumes "i < length (needleMatrices s)" and "i < length nData"
    and "\<forall>f \<in> set fs. frame_mode f = SCATTERED \<and> 0 \<le> speed (nData ! i) * 60 * frame_delta f
                      \<and> speed (nData ! i) * 60 * frame_delta f \<le> 1"
    and "\<bar>vy (matrixPosition (needleMatrices s ! i)) - vy (scatterPos (nData ! i))\<bar> \<le> 1 / 2"
  shows "\<bar>vy (matrixPosition (needleMatrices (frames sl nData oData fs s) ! i))
          - vy (scatterPos (nData ! i))\<bar> \<le> 1 / 2"
  using assms(1,3,4)
proof (induction fs arbitrary: s)
  case Nil
  then show ?case by (simp add: frames_Nil)
next
  case (Cons g fs)
  let ?s1 = "useFrame sl nData oData (frame_mode g) (frame_time g) (frame_delta g) s"
  have len: "i < length (needleMatrices ?s1)"
    using Cons.prems(1) by (simp add: needleMatrices_useFrame_length)
  have g: "frame_mode g = SCATTERED" "0 \<le> speed (nData ! i) * 60 * frame_delta g"
    "speed (nData ! i) * 60 * frame_delta g \<le> 1"
    using Cons.prems(2) by simp_all
  have rest: "\<forall>f \<in> set fs. frame_mode f = SCATTERED \<and> 0 \<le> speed (nData ! i) * 60 * frame_delta f
                      \<and> speed (nData ! i) * 60 * frame_delta f \<le> 1"
    using Cons.prems(2) by simp
  have "vy (matrixPosition (needleMatrices ?s1 ! i))
        = vy (matrixPosition (needleMatrices s ! i))
          + (vy (scatterPos (nData ! i)) + sin (frame_time g + real i) * (1 / 2)
             - vy (matrixPosition (needleMatrices s ! i)))
            * (speed (nData ! i) * 60 * frame_delta g)"
    using needlePosition_useFrame [OF Cons.prems(1) assms(2), of sl oData "frame_mode g"
        "frame_time g" "frame_delta g"]
    by (simp add: g(1) needleTempVec_def Vector3_lerp_def Vector3_addScalar_def Let_def)
  then have one: "\<bar>vy (matrixPosition (needleMatrices ?s1 ! i)) - vy (scatterPos (nData ! i))\<bar>
                  \<le> 1 / 2"
    using blend_within [OF g(2) g(3) Cons.prems(3), of "sin (frame_time g + real i)"]
    by simp
  show ?case
    using Cons.IH [OF len rest one] by (simp add: frames_Cons)
qed

lemma distanceTo_height: "\<bar>vy a - vy b\<bar> \<le> Vector3_distanceTo a b"
proof -
  have "(vy a - vy b)\<^sup>2 \<le> (vx a - vx b) * (vx a - vx b) + (vy a - vy b) * (vy a - vy b)
                          + (vz a - vz b) * (vz a - vz b)"
    by (simp add: power2_eq_square)
  then have "sqrt ((vy a - vy b)\<^sup>2) \<le> Vector3_distanceTo a b"
    unfolding Vector3_distanceTo_def by (rule real_sqrt_le_mono)
  then show ?thesis by simp
qed

lemma framesAt60_set:
  "f \<in> set (framesAt60 mode t0 n) \<Longrightarrow> frame_mode f = mode \<and> frame_delta f = 1 / 60"
  by (auto simp: framesAt60_def)

lemma framesAt60_product:
  "(\<Prod>f\<leftarrow>framesAt60 mode t0 n. \<bar>1 - k * frame_delta f\<bar>) = \<bar>1 - k * (1 / 60)\<bar> ^ n"
proof -
  have "map (\<lambda>f. \<bar>1 - k * frame_delta f\<bar>) (framesAt60 mode t0 n)
        = replicate n \<bar>1 - k * (1 / 60)\<bar>"
    by (simp add: framesAt60_def map_replicate_const comp_def)
  then show ?thesis by (simp add: prod_list_replicate)
qed

lemma framesAt60_duration: "sum_list (map frame_delta (framesAt60 mode t0 n)) = real n / 60"
proof -
  have "map frame_delta (framesAt60 mode t0 n) = replicate n (1 / 60)"
    by (simp add: framesAt60_def map_replicate_const comp_def)
  then show ?thesis by (simp add: sum_list_replicate)
qed

lemma dataset_first: "fst (dataset g) ! 0 = fst (needleDatum g)"
proof -
  have c: "PARTICLE_COUNT = Suc 3499" by (simp add: PARTICLE_COUNT_def)
  have "fst (needleData_loop (Suc n) g) ! 0 = fst (needleDatum g)" for n
    by (simp add: case_prod_beta Let_def)
  then have "fst (needleData_loop PARTICLE_COUNT g) ! 0 = fst (needleDatum g)"
    unfolding c .
  then show ?thesis
    by (simp add: dataset_def needleData_def case_prod_beta Let_def)
qed

lemma exampleNeedle:
  "speed (fst (needleDatum exampleDraws)) = 1 / 50"
  "vy (treePos (fst (needleDatum exampleDraws))) = 4"
  "vy (scatterPos (fst (needleDatum exampleDraws))) = 0"
  by (simp_all add: needleDatum_def case_prod_beta Let_def snd_randomInSphere randomInSphere_def
        randomInCone_def Math_random_def exampleDraws_def TREE_HEIGHT_def eval_nat_numeral)


text \<open>
  Claim C3, as the code has it. Let the mode be flipped to \<open>TREE_SHAPE\<close> after any frames
  \<open>fs\<close> (the five seconds in the scattered mode of the scenario), and let the frames \<open>gs\<close>
  that follow last three seconds in all, each with a blend factor \<open>speed * 60 * dt\<close>
  between \<open>0\<close> and \<open>1\<close>. For a needle with a speed of at least \<open>0.02\<close>, the lower bound of
  the needles' speed range, the distance of its position from its arranged position is
  then at most \<open>0.03\<close> times what it was at the flip, and its matrix is composed with the
  scale \<open>(1, 1, 1)\<close> exactly. The distance itself need not be within \<open>0.05\<close>.
\<close>

theorem arranged_convergence:
  assumes "i < length nData" and "i < length (needleMatrices s)"
    and "1 / 50 \<le> speed (nData ! i)"
    and "\<forall>f \<in> set gs. frame_mode f = TREE_SHAPE \<and> 0 \<le> frame_delta f
                      \<and> speed (nData ! i) * 60 * frame_delta f \<le> 1"
    and "sum_list (map frame_delta gs) = 3"
  shows "Vector3_distanceTo
           (matrixPosition (needleMatrices (frames sl nData oData (fs @ gs) s) ! i))
           (treePos (nData ! i))
         \<le> 3 / 100 * Vector3_distanceTo
                        (matrixPosition (needleMatrices (frames sl nData oData fs s) ! i))
                        (treePos (nData ! i))
       \<and> (let T = needleTransform sl True (frame_time (last gs)) (frame_delta (last gs)) i
                     (nData ! i)
                     (needleMatrices (frames sl nData oData (fs @ butlast gs) s) ! i)
          in needleMatrices (frames sl nData oData (fs @ gs) s) ! i
             = Matrix4_compose (obj_position T) (obj_quaternion T) (Vector3 1 1 1))"
proof -
  let ?k = "speed (nData ! i) * 60"
  let ?flip = "frames sl nData oData fs s"
  let ?d0 = "Vector3_distanceTo (matrixPosition (needleMatrices ?flip ! i)) (treePos (nData ! i))"
  let ?p = "\<Prod>f\<leftarrow>gs. \<bar>1 - ?k * frame_delta f\<bar>"
  have len: "i < length (needleMatrices ?flip)"
    using assms(2) by (simp add: needleMatrices_frames_length)
  have modes: "\<forall>f \<in> set gs. frame_mode f = TREE_SHAPE" using assms(4) by simp
  have k: "0 \<le> ?k" "6 / 5 \<le> ?k" using assms(3) by simp_all
  have factors: "\<forall>f \<in> set gs. 0 \<le> ?k * frame_delta f \<and> ?k * frame_delta f \<le> 1"
    using assms(4) k(1) by simp
  have dist: "Vector3_distanceTo
           (matrixPosition (needleMatrices (frames sl nData oData (fs @ gs) s) ! i))
           (treePos (nData ! i)) = ?p * ?d0"
    using arranged_distance [OF len assms(1) modes, of sl oData] by (simp add: frames_append)
  have "?p \<le> exp (- (?k * sum_list (map frame_delta gs)))"
    using decay_bound [OF factors] by simp
  also have "\<dots> \<le> exp (- (18 / 5))"
    using k(2) by (simp add: assms(5))
  also have "\<dots> < 3 / 100" by (rule exp_bound)
  finally have p: "?p \<le> 3 / 100" by simp
  have d0: "0 \<le> ?d0" by (simp add: Vector3_distanceTo_def)
  have bound: "?p * ?d0 \<le> 3 / 100 * ?d0"
    using p d0 by (rule mult_right_mono)
  have ne: "gs \<noteq> []" using assms(5) by auto
  then have split: "gs = butlast gs @ [last gs]" by simp
  have last_mode: "frame_mode (last gs) = TREE_SHAPE"
    using ne modes by simp
  have len2: "i < length (needleMatrices (frames sl nData oData (fs @ butlast gs) s))"
    using assms(2) by (simp add: needleMatrices_frames_length)
  have "frames sl nData oData (fs @ gs) s
        = useFrame sl nData oData (frame_mode (last gs)) (frame_time (last gs))
            (frame_delta (last gs)) (frames sl nData oData (fs @ butlast gs) s)"
    using frames_snoc [of sl nData oData "fs @ butlast gs" "last gs" s] split by simp
  then have scale: "needleMatrices (frames sl nData oData (fs @ gs) s) ! i
        = updateMatrix (needleTransform sl True (frame_time (last gs)) (frame_delta (last gs)) i
            (nData ! i) (needleMatrices (frames sl nData oData (fs @ butlast gs) s) ! i))"
    using len2 assms(1) by (simp add: needleMatrices_useFrame_nth last_mode)
  have first: "Vector3_distanceTo
           (matrixPosition (needleMatrices (frames sl nData oData (fs @ gs) s) ! i))
           (treePos (nData ! i)) \<le> 3 / 100 * ?d0"
    unfolding dist by (rule bound)
  have second: "needleMatrices (frames sl nData oData (fs @ gs) s) ! i
        = Matrix4_compose
            (obj_position (needleTransform sl True (frame_time (last gs)) (frame_delta (last gs))
               i (nData ! i) (needleMatrices (frames sl nData oData (fs @ butlast gs) s) ! i)))
            (obj_quaternion (needleTransform sl True (frame_time (last gs)) (frame_delta (last gs))
               i (nData ! i) (needleMatrices (frames sl nData oData (fs @ butlast gs) s) ! i)))
            (Vector3 1 1 1)"
    unfolding scale
    by (simp add: updateMatrix_def needleTransform_def Let_def Vector3_setScalar_def)
  show ?thesis
    unfolding Let_def using first second by (rule conjI)
qed


lemma matrixPosition_compose: "matrixPosition (Matrix4_compose p q sc) = p"
  by (simp add: matrixPosition_def Matrix4_compose_def Let_def)

lemma example_scene:
  "0 < length (fst (dataset exampleDraws))"
  "0 < length (needleMatrices (useLayoutEffect (fst (dataset exampleDraws))
                  (snd (dataset exampleDraws)) (mount Matrix4_identity)))"
  "matrixPosition (needleMatrices (useLayoutEffect (fst (dataset exampleDraws))
                  (snd (dataset exampleDraws)) (mount Matrix4_identity)) ! 0) = Vector3 0 0 0"
proof -
  show a: "0 < length (fst (dataset exampleDraws))"
    by (simp add: dataset_lengths counts_pos)
  have b: "0 < length (needleMatrices (mount Matrix4_identity))"
    by (simp add: mount_matrices counts_pos)
  then show "0 < length (needleMatrices (useLayoutEffect (fst (dataset exampleDraws))
                  (snd (dataset exampleDraws)) (mount Matrix4_identity)))"
    by (simp add: needleMatrices_useLayoutEffect_length)
  have "obj_position (dummy (mount Matrix4_identity)) = Vector3 0 0 0"
    by (simp add: mount_def Object3D_new_def)
  then show "matrixPosition (needleMatrices (useLayoutEffect (fst (dataset exampleDraws))
                  (snd (dataset exampleDraws)) (mount Matrix4_identity)) ! 0) = Vector3 0 0 0"
    using a b by (simp add: needleMatrices_useLayoutEffect_nth matrixPosition_compose)
qed

theorem arranged_convergence_witness:
  "0 < length (fst (dataset exampleDraws))
   \<and> 0 < length (needleMatrices (useLayoutEffect (fst (dataset exampleDraws))
                  (snd (dataset exampleDraws)) (mount Matrix4_identity)))
   \<and> 1 / 50 \<le> speed (fst (dataset exampleDraws) ! 0)
   \<and> map frame_mode (framesAt60 TREE_SHAPE 5 180) = replicate 180 TREE_SHAPE
   \<and> map frame_delta (framesAt60 TREE_SHAPE 5 180) = replicate 180 (1 / 60)
   \<and> speed (fst (dataset exampleDraws) ! 0) * 60 * (1 / 60) \<le> 1
   \<and> sum_list (map frame_delta (framesAt60 TREE_SHAPE 5 180)) = 3
   \<and> Vector3_distanceTo
        (matrixPosition (needleMatrices
           (frames Quaternion_slerp (fst (dataset exampleDraws)) (snd (dataset exampleDraws))
              (framesAt60 SCATTERED 0 300 @ framesAt60 TREE_SHAPE 5 180)
              (useLayoutEffect (fst (dataset exampleDraws)) (snd (dataset exampleDraws))
                 (mount Matrix4_identity))) ! 0))
        (treePos (fst (dataset exampleDraws) ! 0))
      \<le> 3 / 100 * Vector3_distanceTo
            (matrixPosition (needleMatrices
               (frames Quaternion_slerp (fst (dataset exampleDraws)) (snd (dataset exampleDraws))
                  (framesAt60 SCATTERED 0 300)
                  (useLayoutEffect (fst (dataset exampleDraws)) (snd (dataset exampleDraws))
                     (mount Matrix4_identity))) ! 0))
            (treePos (fst (dataset exampleDraws) ! 0))"
proof -
  have sp: "speed (fst (dataset exampleDraws) ! 0) = 1 / 50"
    by (simp add: dataset_first exampleNeedle)
  have h3: "1 / 50 \<le> speed (fst (dataset exampleDraws) ! 0)" by (simp add: sp)
  have h4: "\<forall>f \<in> set (framesAt60 TREE_SHAPE 5 180). frame_mode f = TREE_SHAPE
              \<and> 0 \<le> frame_delta f
              \<and> speed (fst (dataset exampleDraws) ! 0) * 60 * frame_delta f \<le> 1"
    by (auto simp: sp dest: framesAt60_set)
  have h5: "sum_list (map frame_delta (framesAt60 TREE_SHAPE 5 180)) = 3"
    by (simp add: framesAt60_duration)
  have h6: "map frame_mode (framesAt60 TREE_SHAPE 5 180) = replicate 180 TREE_SHAPE"
    "map frame_delta (framesAt60 TREE_SHAPE 5 180) = replicate 180 (1 / 60)"
    "speed (fst (dataset exampleDraws) ! 0) * 60 * (1 / 60) \<le> 1"
    by (simp_all add: framesAt60_def map_replicate_const comp_def sp)
  show ?thesis
    using example_scene(1,2) h3 h5 h6
      arranged_convergence [OF example_scene(1,2) h3 h4 h5, of Quaternion_slerp
        "snd (dataset exampleDraws)" "framesAt60 SCATTERED 0 300"]
    by blast
qed

text \<open>
  Claim C3 as stated has every needle within \<open>0.05\<close> of its arranged position three
  seconds after the flip. The first needle built from \<open>exampleDraws\<close> has the speed \<open>0.02\<close>,
  a scattered position at the height \<open>0\<close> and an arranged position at the height \<open>4\<close>. At
  sixty frames per second, after the layout effect, 300 frames in the scattered mode (5 s)
  and 180 frames in the mode \<open>TREE_SHAPE\<close> (3 s), its height is still below \<open>0.5\<close> at the
  flip, and its distance from the arranged position is more than \<open>0.05\<close> at the end: every
  frame after the flip multiplies the distance by \<open>0.98\<close>.
\<close>

theorem sixty_fps_counterexample:
  "speed (fst (dataset exampleDraws) ! 0) = 1 / 50
   \<and> sum_list (map frame_delta (framesAt60 SCATTERED 0 300)) = 5
   \<and> sum_list (map frame_delta (framesAt60 TREE_SHAPE 5 180)) = 3
   \<and> \<not> Vector3_distanceTo
          (matrixPosition (needleMatrices
             (frames Quaternion_slerp (fst (dataset exampleDraws)) (snd (dataset exampleDraws))
                (framesAt60 SCATTERED 0 300 @ framesAt60 TREE_SHAPE 5 180)
                (useLayoutEffect (fst (dataset exampleDraws)) (snd (dataset exampleDraws))
                   (mount Matrix4_identity))) ! 0))
          (treePos (fst (dataset exampleDraws) ! 0))
        \<le> 1 / 20"
proof -
  let ?nD = "fst (dataset exampleDraws)"
  let ?oD = "snd (dataset exampleDraws)"
  let ?s0 = "useLayoutEffect ?nD ?oD (mount Matrix4_identity)"
  let ?flip = "frames Quaternion_slerp ?nD ?oD (framesAt60 SCATTERED 0 300) ?s0"
  let ?end = "frames Quaternion_slerp ?nD ?oD
                (framesAt60 SCATTERED 0 300 @ framesAt60 TREE_SHAPE 5 180) ?s0"
  have sp: "speed (?nD ! 0) = 1 / 50" and ty: "vy (treePos (?nD ! 0)) = 4"
    and sy: "vy (scatterPos (?nD ! 0)) = 0"
    by (simp_all add: dataset_first exampleNeedle)
  have start: "\<bar>vy (matrixPosition (needleMatrices ?s0 ! 0)) - vy (scatterPos (?nD ! 0))\<bar> \<le> 1 / 2"
    by (simp add: example_scene(3) sy)
  have sc: "\<forall>f \<in> set (framesAt60 SCATTERED 0 300). frame_mode f = SCATTERED
              \<and> 0 \<le> speed (?nD ! 0) * 60 * frame_delta f
              \<and> speed (?nD ! 0) * 60 * frame_delta f \<le> 1"
    by (auto simp: sp dest: framesAt60_set)
  have "\<bar>vy (matrixPosition (needleMatrices ?flip ! 0)) - vy (scatterPos (?nD ! 0))\<bar> \<le> 1 / 2"
    by (rule scatter_height_bound [OF example_scene(2,1) sc start])
  then have "7 / 2 \<le> \<bar>vy (matrixPosition (needleMatrices ?flip ! 0)) - vy (treePos (?nD ! 0))\<bar>"
    by (simp add: sy ty)
  also have "\<dots> \<le> Vector3_distanceTo (matrixPosition (needleMatrices ?flip ! 0))
                      (treePos (?nD ! 0))"
    by (rule distanceTo_height)
  finally have far: "7 / 2 \<le> Vector3_distanceTo (matrixPosition (needleMatrices ?flip ! 0))
                               (treePos (?nD ! 0))" .
  have len: "0 < length (needleMatrices ?flip)"
    using example_scene(2) by (simp add: needleMatrices_frames_length)
  have modes: "\<forall>f \<in> set (framesAt60 TREE_SHAPE 5 180). frame_mode f = TREE_SHAPE"
    by (auto dest: framesAt60_set)
  have "Vector3_distanceTo (matrixPosition (needleMatrices ?end ! 0)) (treePos (?nD ! 0))
        = (49 / 50) ^ 180
          * Vector3_distanceTo (matrixPosition (needleMatrices ?flip ! 0)) (treePos (?nD ! 0))"
  proof -
    have "\<bar>1 - speed (?nD ! 0) * 60 * (1 / 60)\<bar> = 49 / 50" by (simp add: sp)
    then have prod: "(\<Prod>f\<leftarrow>framesAt60 TREE_SHAPE 5 180.
                       \<bar>1 - speed (?nD ! 0) * 60 * frame_delta f\<bar>) = (49 / 50) ^ 180"
      by (simp only: framesAt60_product)
    show ?thesis
      using arranged_distance [OF len example_scene(1) modes, of Quaternion_slerp ?oD]
      by (simp only: frames_append prod)
  qed
  moreover have "(49 / 50 :: real) ^ 180 * (7 / 2)
        \<le> (49 / 50) ^ 180
          * Vector3_distanceTo (matrixPosition (needleMatrices ?flip ! 0)) (treePos (?nD ! 0))"
    by (rule mult_left_mono [OF far]) simp
  moreover have "(1 / 20 :: real) < (49 / 50) ^ 180 * (7 / 2)"
    by (simp add: power_divide)
  ultimately have "1 / 20 < Vector3_distanceTo (matrixPosition (needleMatrices ?end ! 0))
                             (treePos (?nD ! 0))"
    by linarith
  then show ?thesis
    by (simp add: sp framesAt60_duration not_le)
qed


subsection \<open>Unit quaternions\<close>

lemma unitq_setFromEuler: "unitq (Quaternion_setFromEuler e)"
proof -
  have alg: "\<And>c1 s1 c2 s2 c3 s3 :: real.
      s1 * s1 + c1 * c1 = 1 \<Longrightarrow> s2 * s2 + c2 * c2 = 1 \<Longrightarrow> s3 * s3 + c3 * c3 = 1 \<Longrightarrow>
      (s1 * c2 * c3 + c1 * s2 * s3) * (s1 * c2 * c3 + c1 * s2 * s3)
      + (c1 * s2 * c3 - s1 * c2 * s3) * (c1 * s2 * c3 - s1 * c2 * s3)
      + (c1 * c2 * s3 + s1 * s2 * c3) * (c1 * c2 * s3 + s1 * s2 * c3)
      + (c1 * c2 * c3 - s1 * s2 * s3) * (c1 * c2 * c3 - s1 * s2 * s3) = 1"
    by algebra
  show ?thesis
    unfolding unitq_def Quaternion_setFromEuler_def Let_def quaternion.sel
    by (rule alg) (simp_all add: add.commute)
qed

lemma unitq_setFromAxisAngle_vertical: "unitq (Quaternion_setFromAxisAngle (Vector3 0 1 0) a)"
  by (simp add: unitq_def Quaternion_setFromAxisAngle_def Let_def add.commute)

lemma unitq_multiply:
  assumes "unitq a" and "unitq b"
  shows "unitq (Quaternion_multiply a b)"
proof -
  have alg: "\<And>ax ay az aw bx by bz bw :: real.
      ax * ax + ay * ay + az * az + aw * aw = 1 \<Longrightarrow> bx * bx + by * by + bz * bz + bw * bw = 1 \<Longrightarrow>
      (ax * bw + aw * bx + ay * bz - az * by) * (ax * bw + aw * bx + ay * bz - az * by)
      + (ay * bw + aw * by + az * bx - ax * bz) * (ay * bw + aw * by + az * bx - ax * bz)
      + (az * bw + aw * bz + ax * by - ay * bx) * (az * bw + aw * bz + ax * by - ay * bx)
      + (aw * bw - ax * bx - ay * by - az * bz) * (aw * bw - ax * bx - ay * by - az * bz) = 1"
    by algebra
  show ?thesis
    using assms unfolding unitq_def Quaternion_multiply_def quaternion.sel
    by (rule alg)
qed

lemma unitq_needleTargetQuat: "unitq (needleTargetQuat isTree time data)"
  by (simp add: needleTargetQuat_def Let_def unitq_setFromEuler unitq_multiply
        unitq_setFromAxisAngle_vertical)

lemma unitq_normalize: "unitq (Quaternion_normalize q)"
proof -
  let ?n = "qx q * qx q + qy q * qy q + qz q * qz q + qw q * qw q"
  have n0: "0 \<le> ?n" by simp
  have scaled: "x * (1 / l) * (x * (1 / l)) + y * (1 / l) * (y * (1 / l))
                + z * (1 / l) * (z * (1 / l)) + w * (1 / l) * (w * (1 / l))
                = (x * x + y * y + z * z + w * w) / (l * l)" for x y z w l :: real
    by (simp add: add_divide_distrib)
  show ?thesis
  proof (cases "sqrt ?n = 0")
    case True
    then show ?thesis by (simp add: Quaternion_normalize_def unitq_def)
  next
    case False
    then have pos: "?n \<noteq> 0" by simp
    have sq: "sqrt ?n * sqrt ?n = ?n" using n0 by simp
    have "?n / (sqrt ?n * sqrt ?n) = 1" using pos by (simp only: sq) simp
    then show ?thesis
      using False
      by (simp only: Quaternion_normalize_def unitq_def Let_def if_False quaternion.sel scaled)
  qed
qed

lemma atan2_unit:
  fixes c :: real
  assumes "0 \<le> c" and "c < 1"
  shows "cos (Math_atan2 (sqrt (1 - c * c)) c) = c \<and> sin (Math_atan2 (sqrt (1 - c * c)) c) = sqrt (1 - c * c)"
proof (cases "c = 0")
  case True
  then show ?thesis by (simp add: Math_atan2_def)
next
  case False
  with assms have c: "0 < c" by simp
  let ?s = "sqrt (1 - c * c)"
  have "c * c < 1 * 1" by (rule mult_strict_mono) (use assms in simp_all)
  then have cc: "c * c < 1" by simp
  have "1 + (?s / c)\<^sup>2 = 1 / c\<^sup>2"
    using c cc by (simp add: power_divide power2_eq_square field_simps)
  then have r: "sqrt (1 + (?s / c)\<^sup>2) = 1 / c"
    using c by (simp add: real_sqrt_divide)
  have "cos (arctan (?s / c)) = c" "sin (arctan (?s / c)) = ?s"
    using c by (simp_all add: cos_arctan sin_arctan r)
  then show ?thesis using c by (simp add: Math_atan2_def)
qed

lemma slerp_weights:
  fixes a b :: real
  shows "sin a * sin a + sin b * sin b + 2 * (sin a * sin b) * cos (a + b) = sin (a + b) * sin (a + b)"
proof -
  have alg: "\<And>sa ca sb cb :: real. sa * sa + ca * ca = 1 \<Longrightarrow> sb * sb + cb * cb = 1 \<Longrightarrow>
      sa * sa + sb * sb + 2 * (sa * sb) * (ca * cb - sa * sb)
      = (sa * cb + ca * sb) * (sa * cb + ca * sb)"
    by algebra
  show ?thesis
    unfolding sin_add cos_add by (rule alg) (simp_all add: add.commute)
qed

lemma blend_norm:
  fixes A B :: real
  assumes "x * x + y * y + z * z + w * w = 1" and "x1 * x1 + y1 * y1 + z1 * z1 + w1 * w1 = 1"
    and "w * w1 + x * x1 + y * y1 + z * z1 = c"
  shows "(x * A + x1 * B) * (x * A + x1 * B) + (y * A + y1 * B) * (y * A + y1 * B)
         + (z * A + z1 * B) * (z * A + z1 * B) + (w * A + w1 * B) * (w * A + w1 * B)
         = A * A + B * B + 2 * (A * B) * c"
proof -
  have "(x * A + x1 * B) * (x * A + x1 * B) + (y * A + y1 * B) * (y * A + y1 * B)
         + (z * A + z1 * B) * (z * A + z1 * B) + (w * A + w1 * B) * (w * A + w1 * B)
        = A * A * (x * x + y * y + z * z + w * w) + B * B * (x1 * x1 + y1 * y1 + z1 * z1 + w1 * w1)
          + 2 * (A * B) * (w * w1 + x * x1 + y * y1 + z * z1)"
    by (simp add: algebra_simps)
  then show ?thesis by (simp only: assms mult_1_right)
qed

lemma unitq_slerp:
  assumes a: "unitq qa" and b: "unitq qb"
  shows "unitq (Quaternion_slerp qa qb t)"
proof -
  define dot where "dot = qw qa * qw qb + qx qa * qx qb + qy qa * qy qb + qz qa * qz qb"
  define q1 where "q1 = (if dot < 0 then Quaternion (- qx qb) (- qy qb) (- qz qb) (- qw qb) else qb)"
  define c where "c = (if dot < 0 then - dot else dot)"
  have ua: "qx qa * qx qa + qy qa * qy qa + qz qa * qz qa + qw qa * qw qa = 1"
    using a by (simp add: unitq_def)
  have u1: "qx q1 * qx q1 + qy q1 * qy q1 + qz q1 * qz q1 + qw q1 * qw q1 = 1"
    using b by (simp add: unitq_def q1_def)
  have dc: "qw qa * qw q1 + qx qa * qx q1 + qy qa * qy q1 + qz qa * qz q1 = c"
    by (simp add: q1_def c_def dot_def)
  have c0: "0 \<le> c" by (simp add: c_def)
  have val: "Quaternion_slerp qa qb t
      = (if t = 0 then qa
         else if t = 1 then qb
         else if c \<ge> 1 then qa
         else if 1 - c * c \<le> Number_EPSILON
           then Quaternion_normalize
                  (Quaternion ((1 - t) * qx qa + t * qx q1) ((1 - t) * qy qa + t * qy q1)
                     ((1 - t) * qz qa + t * qz q1) ((1 - t) * qw qa + t * qw q1))
           else Quaternion
                  (qx qa * (sin ((1 - t) * Math_atan2 (sqrt (1 - c * c)) c) / sqrt (1 - c * c))
                   + qx q1 * (sin (t * Math_atan2 (sqrt (1 - c * c)) c) / sqrt (1 - c * c)))
                  (qy qa * (sin ((1 - t) * Math_atan2 (sqrt (1 - c * c)) c) / sqrt (1 - c * c))
                   + qy q1 * (sin (t * Math_atan2 (sqrt (1 - c * c)) c) / sqrt (1 - c * c)))
                  (qz qa * (sin ((1 - t) * Math_atan2 (sqrt (1 - c * c)) c) / sqrt (1 - c * c))
                   + qz q1 * (sin (t * Math_atan2 (sqrt (1 - c * c)) c) / sqrt (1 - c * c)))
                  (qw qa * (sin ((1 - t) * Math_atan2 (sqrt (1 - c * c)) c) / sqrt (1 - c * c))
                   + qw q1 * (sin (t * Math_atan2 (sqrt (1 - c * c)) c) / sqrt (1 - c * c))))"
    unfolding Quaternion_slerp_def Let_def c_def q1_def dot_def by (rule refl)
  consider "t = 0" | "t \<noteq> 0" "t = 1" | "t \<noteq> 0" "t \<noteq> 1" "1 \<le> c"
    | "t \<noteq> 0" "t \<noteq> 1" "c < 1" "1 - c * c \<le> Number_EPSILON"
    | "t \<noteq> 0" "t \<noteq> 1" "c < 1" "\<not> 1 - c * c \<le> Number_EPSILON"
    by linarith
  then show ?thesis
  proof cases
    case 1
    then show ?thesis using a by (simp add: Quaternion_slerp_def)
  next
    case 2
    then show ?thesis using b by (simp add: Quaternion_slerp_def)
  next
    case 3
    then have "Quaternion_slerp qa qb t = qa"
      by (simp add: val)
    then show ?thesis using a by simp
  next
    case 4
    then have "Quaternion_slerp qa qb t
               = Quaternion_normalize
                   (Quaternion ((1 - t) * qx qa + t * qx q1) ((1 - t) * qy qa + t * qy q1)
                      ((1 - t) * qz qa + t * qz q1) ((1 - t) * qw qa + t * qw q1))"
      by (simp add: val)
    then show ?thesis by (simp only: unitq_normalize)
  next
    case 5
    let ?s = "sqrt (1 - c * c)"
    let ?th = "Math_atan2 ?s c"
    let ?A = "sin ((1 - t) * ?th) / ?s"
    let ?B = "sin (t * ?th) / ?s"
    have eps: "0 < Number_EPSILON" by (simp add: Number_EPSILON_def)
    have pos: "0 < 1 - c * c" using 5(4) eps by linarith
    then have s0: "0 < ?s" by simp
    have ss: "?s * ?s = 1 - c * c" using pos by simp
    have trig: "cos ?th = c" "sin ?th = ?s"
      using atan2_unit [OF c0 5(3)] by simp_all
    have val5: "Quaternion_slerp qa qb t
               = Quaternion (qx qa * ?A + qx q1 * ?B) (qy qa * ?A + qy q1 * ?B)
                   (qz qa * ?A + qz q1 * ?B) (qw qa * ?A + qw q1 * ?B)"
      using 5 by (simp only: val if_False not_le [symmetric] simp_thms)
    have sum: "(1 - t) * ?th + t * ?th = ?th" by (simp add: algebra_simps)
    have w: "sin ((1 - t) * ?th) * sin ((1 - t) * ?th) + sin (t * ?th) * sin (t * ?th)
             + 2 * (sin ((1 - t) * ?th) * sin (t * ?th)) * c = ?s * ?s"
      using slerp_weights [of "(1 - t) * ?th" "t * ?th"] unfolding sum trig .
    have "?A * ?A + ?B * ?B + 2 * (?A * ?B) * c
          = (sin ((1 - t) * ?th) * sin ((1 - t) * ?th) + sin (t * ?th) * sin (t * ?th)
             + 2 * (sin ((1 - t) * ?th) * sin (t * ?th)) * c) / (?s * ?s)"
      by (simp add: add_divide_distrib)
    also have "\<dots> = 1" unfolding w using s0 by simp
    finally have one: "?A * ?A + ?B * ?B + 2 * (?A * ?B) * c = 1" .
    show ?thesis
      unfolding val5 unitq_def quaternion.sel
      using blend_norm [OF ua u1 dc, of ?A ?B] one by simp
  qed
qed

subsection \<open>The frame loop: scale\<close>

lemma forEach_layoutOrnament_nth:
  assumes "j < length (instanceMatrix mesh)"
  shows "instanceMatrix (fst (forEach layoutOrnament xs (mesh, d))) ! j
         = (if j < length xs
            then Matrix4_compose (obj_position d) (obj_quaternion d)
                   (Vector3_setScalar (scale (xs ! j)))
            else instanceMatrix mesh ! j)"
  using forEach_nth
          [where I = "\<lambda>md. obj_position (snd md) = obj_position d
                          \<and> obj_quaternion (snd md) = obj_quaternion d"
             and body = layoutOrnament and proj = instanceMatrix
             and F = "\<lambda>i x m. Matrix4_compose (obj_position d) (obj_quaternion d)
                                (Vector3_setScalar (scale x))"
             and md = "(mesh, d)" and j = j and xs = xs]
        assms
  by (simp add: layoutOrnament_dummy layoutOrnament_matrix)

lemma forEach_layoutOrnament_length:
  "length (instanceMatrix (fst (forEach layoutOrnament xs (mesh, d)))) = length (instanceMatrix mesh)"
  using forEach_length
          [where I = "\<lambda>md. obj_position (snd md) = obj_position d
                          \<and> obj_quaternion (snd md) = obj_quaternion d"
             and body = layoutOrnament and proj = instanceMatrix
             and F = "\<lambda>i x m. Matrix4_compose (obj_position d) (obj_quaternion d)
                                (Vector3_setScalar (scale x))"
             and md = "(mesh, d)" and xs = xs]
  by (simp add: layoutOrnament_dummy layoutOrnament_matrix)

lemma ornamentMatrices_useLayoutEffect_length:
  "length (ornamentMatrices (useLayoutEffect nData oData s)) = length (ornamentMatrices s)"
  by (cases "needlesMesh s"; cases "ornamentsMesh s")
     (simp_all add: useLayoutEffect_def ornamentMatrices_def Let_def case_prod_beta
        forEach_layoutOrnament_length)

lemma ornamentMatrices_useLayoutEffect_nth:
  assumes "j < length (ornamentMatrices s)"
  shows "ornamentMatrices (useLayoutEffect nData oData s) ! j
         = (if j < length oData
            then Matrix4_compose (obj_position (dummy s)) (obj_quaternion (dummy s))
                   (Vector3_setScalar (scale (oData ! j)))
            else ornamentMatrices s ! j)"
  using assms
  by (cases "needlesMesh s"; cases "ornamentsMesh s")
     (simp_all add: useLayoutEffect_def ornamentMatrices_def Let_def case_prod_beta
        forEach_layoutOrnament_nth)

lemma snd_needleData_loop: "snd (needleData_loop n g) = (\<lambda>k. g (k + 13 * n))"
proof (induction n arbitrary: g)
  case 0
  show ?case by simp
next
  case (Suc n)
  have "snd (needleData_loop (Suc n) g) = snd (needleData_loop n (snd (needleDatum g)))"
    by (simp add: case_prod_beta Let_def)
  also have "\<dots> = (\<lambda>k. g (k + 13 * n + 13))"
    by (simp add: Suc.IH snd_needleDatum)
  also have "\<dots> = (\<lambda>k. g (k + 13 * Suc n))"
    by (simp add: algebra_simps)
  finally show ?case .
qed

lemma scale_ornamentDatum: "scale (fst (ornamentDatum g)) = 0.15 + g 6 * 0.25"
  by (simp add: ornamentDatum_def case_prod_beta Let_def snd_randomInSphere
        snd_randomOnConeSurface Math_random_def eval_nat_numeral)

lemma dataset_first_ornament:
  "snd (dataset g) ! 0 = fst (ornamentDatum (\<lambda>k. g (k + 13 * PARTICLE_COUNT)))"
proof -
  have c: "ORNAMENT_COUNT = Suc 149" by (simp add: ORNAMENT_COUNT_def)
  have "fst (ornamentData_loop (Suc n) h) ! 0 = fst (ornamentDatum h)" for n h
    by (simp add: case_prod_beta Let_def)
  then have "fst (ornamentData_loop ORNAMENT_COUNT h) ! 0 = fst (ornamentDatum h)" for h
    unfolding c .
  then show ?thesis
    by (simp add: dataset_def needleData_def ornamentData_def case_prod_beta Let_def
        snd_needleData_loop)
qed

lemma exampleOrnament_scale: "scale (snd (dataset exampleDraws) ! 0) = 11 / 40"
  by (simp add: dataset_first_ornament scale_ornamentDatum exampleDraws_def PARTICLE_COUNT_def)

lemma compose_fresh:
  "Matrix4_compose (Vector3 0 0 0) (Quaternion 0 0 0 1) (Vector3 a b c)
   = Matrix4 a 0 0 0  0 b 0 0  0 0 c 0  0 0 0 1"
  by (simp add: Matrix4_compose_def)

lemma affine_compose: "affine (Matrix4_compose p q sc)"
  by (simp add: affine_def Matrix4_compose_def Let_def)

lemma exampleScene_needle:
  "needleMatrices exampleScene ! 0 = Matrix4 (1 / 10) 0 0 0  0 (2 / 5) 0 0  0 0 (1 / 10) 0  0 0 0 1"
  "0 < length (needleMatrices exampleScene)"
proof -
  have len: "0 < length (needleMatrices (mount Matrix4_identity))"
    "0 < length (fst (dataset exampleDraws))"
    by (simp_all add: mount_matrices dataset_lengths counts_pos)
  have d: "obj_position (dummy (mount Matrix4_identity)) = Vector3 0 0 0"
    "obj_quaternion (dummy (mount Matrix4_identity)) = Quaternion 0 0 0 1"
    by (simp_all add: mount_def Object3D_new_def)
  show "needleMatrices exampleScene ! 0
        = Matrix4 (1 / 10) 0 0 0  0 (2 / 5) 0 0  0 0 (1 / 10) 0  0 0 0 1"
    using len by (simp add: exampleScene_def needleMatrices_useLayoutEffect_nth d compose_fresh)
  show "0 < length (needleMatrices exampleScene)"
    using len by (simp add: exampleScene_def needleMatrices_useLayoutEffect_length)
qed

lemma exampleScene_ornament:
  "ornamentMatrices exampleScene ! 0
   = Matrix4 (11 / 40) 0 0 0  0 (11 / 40) 0 0  0 0 (11 / 40) 0  0 0 0 1"
  "0 < length (ornamentMatrices exampleScene)"
proof -
  have len: "0 < length (ornamentMatrices (mount Matrix4_identity))"
    "0 < length (snd (dataset exampleDraws))"
    by (simp_all add: mount_matrices dataset_lengths counts_pos)
  have d: "obj_position (dummy (mount Matrix4_identity)) = Vector3 0 0 0"
    "obj_quaternion (dummy (mount Matrix4_identity)) = Quaternion 0 0 0 1"
    by (simp_all add: mount_def Object3D_new_def)
  show "ornamentMatrices exampleScene ! 0
        = Matrix4 (11 / 40) 0 0 0  0 (11 / 40) 0 0  0 0 (11 / 40) 0  0 0 0 1"
    using len
    by (simp add: exampleScene_def ornamentMatrices_useLayoutEffect_nth d compose_fresh
        Vector3_setScalar_def exampleOrnament_scale)
  show "0 < length (ornamentMatrices exampleScene)"
    using len by (simp add: exampleScene_def ornamentMatrices_useLayoutEffect_length)
qed

lemma unitq_needleTransform:
  assumes "unitq (obj_quaternion (Matrix4_decompose m))"
  shows "unitq (obj_quaternion (needleTransform Quaternion_slerp isTree t dt i data m))"
  using assms by (simp add: needleTransform_def Let_def unitq_slerp unitq_needleTargetQuat)

text \<open>
  Claim C4. Each frame composes the matrix of a needle with the scale \<open>(c, c, c)\<close>, where
  \<open>c\<close> is \<open>1\<close> in the mode \<open>TREE_SHAPE\<close> and \<open>1/2\<close> in the scattered mode, whatever
  the scale in the buffer was; decomposing the new matrix gives that scale back when the
  blended orientation is a unit quaternion. The frame loop never assigns the scale of an
  ornament: in both modes its matrix is composed with the scale just decomposed from its
  matrix in the buffer, and decomposing the new matrix gives the same scale again (the
  last row of a matrix in the buffer being \<open>(0, 0, 0, 1)\<close>, as it is in every matrix that
  \<open>updateMatrix\<close> writes).

  The two equalities on the scale read back are equalities of exact arithmetic, as
  everything in this development is. The buffers of the library hold single-precision
  numbers and the composition rounds, so the scale that the program reads back from a
  stored matrix can differ in its last digits from the scale composed into it; what the
  frame composes in, a constant for a needle and the scale it has just read for an
  ornament, is the same in either arithmetic.
\<close>

theorem scale_per_frame:
  "(i < length (needleMatrices s) \<longrightarrow> i < length nData \<longrightarrow>
      (let T = needleTransform sl (mode = TREE_SHAPE) t dt i (nData ! i) (needleMatrices s ! i);
           c = (if mode = TREE_SHAPE then 1 else 1 / 2);
           M = needleMatrices (useFrame sl nData oData mode t dt s) ! i
       in M = Matrix4_compose (obj_position T) (obj_quaternion T) (Vector3 c c c)
          \<and> (unitq (obj_quaternion T) \<longrightarrow> obj_scale (Matrix4_decompose M) = Vector3 c c c)))
   \<and> (j < length (ornamentMatrices s) \<longrightarrow> j < length oData \<longrightarrow>
      (let T = ornamentTransform (mode = TREE_SHAPE) t dt j (oData ! j) (ornamentMatrices s ! j);
           old = obj_scale (Matrix4_decompose (ornamentMatrices s ! j));
           M = ornamentMatrices (useFrame sl nData oData mode t dt s) ! j
       in M = Matrix4_compose (obj_position T) (obj_quaternion T) old
          \<and> (affine (ornamentMatrices s ! j) \<longrightarrow> obj_scale (Matrix4_decompose M) = old)))"
proof -
  have needle: "obj_scale (Matrix4_decompose (Matrix4_compose p q (Vector3 c c c))) = Vector3 c c c"
    if "unitq q" "c = 1 \<or> c = 1 / 2" for p q and c :: real
    by (rule decompose_compose_scale) (use that in auto)
  have orn: "obj_scale (Matrix4_decompose
               (Matrix4_compose p (Quaternion 0 (sin a) 0 (cos a)) (obj_scale (Matrix4_decompose m))))
             = obj_scale (Matrix4_decompose m)"
    if "affine m" for p a m
    by (rule decompose_compose_scale [OF unitq_vertical decompose_scale_signs [OF that]])
  show ?thesis
    by (simp add: needleMatrices_useFrame_nth ornamentMatrices_useFrame_nth updateMatrix_def
        needleTransform_def ornamentTransform_def Let_def Vector3_setScalar_def
        setFromEuler_vertical needle orn)
qed

text \<open>
  The first frame after the layout effect, in each mode, on the first needle and the
  first ornament of the dataset built from \<open>exampleDraws\<close>. The needle's scale in the
  buffer is \<open>(0.1, 0.4, 0.1)\<close> before the frame and \<open>(1/2, 1/2, 1/2)\<close> or \<open>(1, 1, 1)\<close> after
  it; the ornament's scale is \<open>0.275\<close> before the frame and after it.
\<close>

theorem scale_per_frame_witness:
  "0 < length (needleMatrices exampleScene)
   \<and> 0 < length (fst (dataset exampleDraws))
   \<and> 0 < length (ornamentMatrices exampleScene)
   \<and> 0 < length (snd (dataset exampleDraws))
   \<and> affine (ornamentMatrices exampleScene ! 0)
   \<and> unitq (obj_quaternion (needleTransform Quaternion_slerp False (1 / 60) (1 / 60) 0
                (fst (dataset exampleDraws) ! 0) (needleMatrices exampleScene ! 0)))
   \<and> obj_scale (Matrix4_decompose (needleMatrices exampleScene ! 0))
       = Vector3 (1 / 10) (2 / 5) (1 / 10)
   \<and> needleMatrices (useFrame Quaternion_slerp (fst (dataset exampleDraws))
         (snd (dataset exampleDraws)) SCATTERED (1 / 60) (1 / 60) exampleScene) ! 0
       = Matrix4_compose
           (obj_position (needleTransform Quaternion_slerp False (1 / 60) (1 / 60) 0
              (fst (dataset exampleDraws) ! 0) (needleMatrices exampleScene ! 0)))
           (obj_quaternion (needleTransform Quaternion_slerp False (1 / 60) (1 / 60) 0
              (fst (dataset exampleDraws) ! 0) (needleMatrices exampleScene ! 0)))
           (Vector3 (1 / 2) (1 / 2) (1 / 2))
   \<and> obj_scale (Matrix4_decompose (needleMatrices (useFrame Quaternion_slerp
         (fst (dataset exampleDraws)) (snd (dataset exampleDraws)) SCATTERED (1 / 60) (1 / 60)
         exampleScene) ! 0))
       = Vector3 (1 / 2) (1 / 2) (1 / 2)
   \<and> obj_scale (Matrix4_decompose (needleMatrices (useFrame Quaternion_slerp
         (fst (dataset exampleDraws)) (snd (dataset exampleDraws)) TREE_SHAPE (1 / 60) (1 / 60)
         exampleScene) ! 0))
       = Vector3 1 1 1
   \<and> obj_scale (Matrix4_decompose (ornamentMatrices exampleScene ! 0))
       = Vector3 (11 / 40) (11 / 40) (11 / 40)
   \<and> ornamentMatrices (useFrame Quaternion_slerp (fst (dataset exampleDraws))
         (snd (dataset exampleDraws)) SCATTERED (1 / 60) (1 / 60) exampleScene) ! 0
       = Matrix4_compose
           (obj_position (ornamentTransform False (1 / 60) (1 / 60) 0
              (snd (dataset exampleDraws) ! 0) (ornamentMatrices exampleScene ! 0)))
           (obj_quaternion (ornamentTransform False (1 / 60) (1 / 60) 0
              (snd (dataset exampleDraws) ! 0) (ornamentMatrices exampleScene ! 0)))
           (Vector3 (11 / 40) (11 / 40) (11 / 40))
   \<and> obj_scale (Matrix4_decompose (ornamentMatrices (useFrame Quaternion_slerp
         (fst (dataset exampleDraws)) (snd (dataset exampleDraws)) SCATTERED (1 / 60) (1 / 60)
         exampleScene) ! 0))
       = Vector3 (11 / 40) (11 / 40) (11 / 40)
   \<and> obj_scale (Matrix4_decompose (ornamentMatrices (useFrame Quaternion_slerp
         (fst (dataset exampleDraws)) (snd (dataset exampleDraws)) TREE_SHAPE (1 / 60) (1 / 60)
         exampleScene) ! 0))
       = Vector3 (11 / 40) (11 / 40) (11 / 40)"
proof -
  let ?nD = "fst (dataset exampleDraws)"
  let ?oD = "snd (dataset exampleDraws)"
  have h1: "0 < length (needleMatrices exampleScene)" by (rule exampleScene_needle(2))
  have h2: "0 < length ?nD" by (simp add: dataset_lengths counts_pos)
  have h3: "0 < length (ornamentMatrices exampleScene)" by (rule exampleScene_ornament(2))
  have h4: "0 < length ?oD" by (simp add: dataset_lengths counts_pos)
  have h5: "affine (ornamentMatrices exampleScene ! 0)"
    by (simp add: exampleScene_ornament(1) affine_def)
  have dn: "Matrix4_decompose (needleMatrices exampleScene ! 0)
            = \<lparr>obj_position = Vector3 0 0 0, obj_quaternion = Quaternion 0 0 0 1,
               obj_scale = Vector3 (1 / 10) (2 / 5) (1 / 10)\<rparr>"
    unfolding exampleScene_needle(1) by (rule decompose_diagonal) simp_all
  have dor: "Matrix4_decompose (ornamentMatrices exampleScene ! 0)
            = \<lparr>obj_position = Vector3 0 0 0, obj_quaternion = Quaternion 0 0 0 1,
               obj_scale = Vector3 (11 / 40) (11 / 40) (11 / 40)\<rparr>"
    unfolding exampleScene_ornament(1) by (rule decompose_diagonal) simp_all
  have sn: "obj_scale (Matrix4_decompose (needleMatrices exampleScene ! 0))
            = Vector3 (1 / 10) (2 / 5) (1 / 10)"
    by (simp add: dn)
  have so: "obj_scale (Matrix4_decompose (ornamentMatrices exampleScene ! 0))
            = Vector3 (11 / 40) (11 / 40) (11 / 40)"
    by (simp add: dor)
  have uq: "unitq (obj_quaternion (Matrix4_decompose (needleMatrices exampleScene ! 0)))"
    by (simp add: dn unitq_def)
  have u1: "unitq (obj_quaternion (needleTransform Quaternion_slerp False (1 / 60) (1 / 60) 0
                (?nD ! 0) (needleMatrices exampleScene ! 0)))"
    by (rule unitq_needleTransform [OF uq])
  have u2: "unitq (obj_quaternion (needleTransform Quaternion_slerp True (1 / 60) (1 / 60) 0
                (?nD ! 0) (needleMatrices exampleScene ! 0)))"
    by (rule unitq_needleTransform [OF uq])
  have m: "(SCATTERED = TREE_SHAPE) = False" "(TREE_SHAPE = TREE_SHAPE) = True"
    "(if False then 1 else 1 / 2) = (1 / 2 :: real)" "(if True then 1 else 1 / 2) = (1 :: real)"
    by simp_all
  note r1 = scale_per_frame [where i = 0 and j = 0 and s = exampleScene and nData = ?nD
      and oData = ?oD and sl = Quaternion_slerp and mode = SCATTERED and t = "1 / 60"
      and dt = "1 / 60", unfolded Let_def m so]
  note r2 = scale_per_frame [where i = 0 and j = 0 and s = exampleScene and nData = ?nD
      and oData = ?oD and sl = Quaternion_slerp and mode = TREE_SHAPE and t = "1 / 60"
      and dt = "1 / 60", unfolded Let_def m so]
  from r1 h1 h2 h3 h4 h5 u1 have a1:
    "needleMatrices (useFrame Quaternion_slerp ?nD ?oD SCATTERED (1 / 60) (1 / 60)
       exampleScene) ! 0
     = Matrix4_compose
         (obj_position (needleTransform Quaternion_slerp False (1 / 60) (1 / 60) 0
            (?nD ! 0) (needleMatrices exampleScene ! 0)))
         (obj_quaternion (needleTransform Quaternion_slerp False (1 / 60) (1 / 60) 0
            (?nD ! 0) (needleMatrices exampleScene ! 0)))
         (Vector3 (1 / 2) (1 / 2) (1 / 2))"
    "obj_scale (Matrix4_decompose (needleMatrices (useFrame Quaternion_slerp ?nD ?oD SCATTERED
       (1 / 60) (1 / 60) exampleScene) ! 0)) = Vector3 (1 / 2) (1 / 2) (1 / 2)"
    "ornamentMatrices (useFrame Quaternion_slerp ?nD ?oD SCATTERED (1 / 60) (1 / 60)
       exampleScene) ! 0
     = Matrix4_compose
         (obj_position (ornamentTransform False (1 / 60) (1 / 60) 0
            (?oD ! 0) (ornamentMatrices exampleScene ! 0)))
         (obj_quaternion (ornamentTransform False (1 / 60) (1 / 60) 0
            (?oD ! 0) (ornamentMatrices exampleScene ! 0)))
         (Vector3 (11 / 40) (11 / 40) (11 / 40))"
    "obj_scale (Matrix4_decompose (ornamentMatrices (useFrame Quaternion_slerp ?nD ?oD SCATTERED
       (1 / 60) (1 / 60) exampleScene) ! 0)) = Vector3 (11 / 40) (11 / 40) (11 / 40)"
    by blast+
  from r2 h1 h2 h3 h4 h5 u2 have a2:
    "obj_scale (Matrix4_decompose (needleMatrices (useFrame Quaternion_slerp ?nD ?oD TREE_SHAPE
       (1 / 60) (1 / 60) exampleScene) ! 0)) = Vector3 1 1 1"
    "obj_scale (Matrix4_decompose (ornamentMatrices (useFrame Quaternion_slerp ?nD ?oD TREE_SHAPE
       (1 / 60) (1 / 60) exampleScene) ! 0)) = Vector3 (11 / 40) (11 / 40) (11 / 40)"
    by blast+
  show ?thesis
    using h1 h2 h3 h4 h5 u1 sn a1 a2 so by (intro conjI)
qed

end
